theory Spec2Isabelle
  imports Complex_Main "HOL-Library.AList" "HOL-Library.Sublist"
begin

section \<open>Data acquisition: the chunk planner and the acquisition driver\<close>

text \<open>
  Source: \<^verbatim>\<open>src/app/models/data/get_data.py\<close>.

  The driver builds every date with \<^verbatim>\<open>datetime(year, 1, 1)\<close> or
  \<^verbatim>\<open>datetime(year, 12, 31)\<close> and moves it by whole \<^verbatim>\<open>timedelta(days=n)\<close>
  only, so a date is a midnight and is modelled by its day number (Python's proleptic
  Gregorian ordinal), an \<open>int\<close>. \<^verbatim>\<open>(right - left).days\<close> is then the difference of
  the day numbers, and \<^verbatim>\<open>//\<close> is \<open>div\<close> on \<open>int\<close> (both round down).

  The remote count endpoint is a parameter \<open>count start end\<close>: the dates reach it as
  \<^verbatim>\<open>%Y-%m-%d\<close> strings, which name the day numbers one to one.
\<close>

type_synonym date = int

type_synonym count_fn = "date \<Rightarrow> date \<Rightarrow> int"

definition MAX_EVENTS :: int where
  "MAX_EVENTS = 20000"

definition TARGET_EVENTS :: int where
  "TARGET_EVENTS = 15000"

text \<open>
  \<^verbatim>\<open>SAMPLES = float('inf')\<close>: the sample target is either unbounded (\<open>None\<close>) or a
  finite number; \<open>below_target n t\<close> is \<^verbatim>\<open>n < t\<close>.
\<close>

type_synonym sample_target = "int option"

definition SAMPLES :: sample_target where
  "SAMPLES = None"

fun below_target :: "int \<Rightarrow> sample_target \<Rightarrow> bool" where
  "below_target n None = True"
| "below_target n (Some t) = (n < t)"

text \<open>\<open>target_reached n t\<close> is \<^verbatim>\<open>n >= t\<close>.\<close>

fun target_reached :: "int \<Rightarrow> sample_target \<Rightarrow> bool" where
  "target_reached n None = False"
| "target_reached n (Some t) = (t \<le> n)"

text \<open>
  The loop of \<^verbatim>\<open>find_optimal_end_date\<close>. Its state is \<open>left\<close>, \<open>right\<close> and
  \<open>best_end\<close>; the last argument logs, in order, every \<open>mid\<close> whose count was requested
  from the endpoint. The result is \<open>best_end\<close> at the exit with that log.
\<close>

function find_optimal_loop ::
  "count_fn \<Rightarrow> date \<Rightarrow> date \<Rightarrow> date \<Rightarrow> date \<Rightarrow> date list \<Rightarrow> date \<times> date list" where
  "find_optimal_loop count start_date left right best_end queried =
     (if left \<le> right then
        (let days_diff = right - left;
             mid = left + days_diff div 2
         in if mid \<le> start_date then (best_end, queried)
            else
              (let cnt = count start_date mid
               in if cnt \<le> MAX_EVENTS then
                    (if real_of_int TARGET_EVENTS * 0.8 \<le> real_of_int cnt
                     then (mid, queried @ [mid])
                     else find_optimal_loop count start_date (mid + 1) right mid (queried @ [mid]))
                  else find_optimal_loop count start_date left (mid - 1) best_end (queried @ [mid])))
      else (best_end, queried))"
  by pat_completeness auto
termination
  by (relation "measure (\<lambda>(count, start_date, left, right, best_end, queried). nat (right - left + 1))")
     auto

declare find_optimal_loop.simps [simp del]

definition find_optimal_run :: "count_fn \<Rightarrow> date \<Rightarrow> date \<Rightarrow> date \<times> date list" where
  "find_optimal_run count start_date max_end_date =
     find_optimal_loop count start_date start_date max_end_date start_date []"

definition find_optimal_end_date :: "count_fn \<Rightarrow> date \<Rightarrow> date \<Rightarrow> date" where
  "find_optimal_end_date count start_date max_end_date =
     fst (find_optimal_run count start_date max_end_date)"

definition queried_ends :: "count_fn \<Rightarrow> date \<Rightarrow> date \<Rightarrow> date list" where
  "queried_ends count start_date max_end_date =
     snd (find_optimal_run count start_date max_end_date)"

text \<open>
  The synthetic count function of the spec's planner property:
  \<^verbatim>\<open>(end - start).days * K\<close> events.
\<close>

definition synthetic_count :: "int \<Rightarrow> count_fn" where
  "synthetic_count K start_date end_date = (end_date - start_date) * K"

text \<open>
  The driver \<^verbatim>\<open>download_data_in_chunks\<close>. Its loop state is \<open>current_date\<close>,
  \<open>chunk_number\<close> and \<open>total_samples_collected\<close>; \<open>downloaded\<close> lists the chunk files
  written by \<^verbatim>\<open>download_data\<close> so far, each with its start, its end and the expected
  count, which \<^verbatim>\<open>download_data\<close> returns unchanged.
\<close>

record driver_state =
  current_date :: date
  chunk_number :: nat
  total_samples_collected :: int
  downloaded :: "(date \<times> date \<times> int) list"

definition download_data :: "date \<Rightarrow> date \<Rightarrow> int \<Rightarrow> int" where
  "download_data start_date end_date expected_count = expected_count"

text \<open>One pass through the body of the \<^verbatim>\<open>while\<close> loop, up to the advance of the date.\<close>

definition driver_step :: "count_fn \<Rightarrow> date \<Rightarrow> driver_state \<Rightarrow> driver_state" where
  "driver_step count final_date st =
     (let optimal_end = find_optimal_end_date count (current_date st) final_date;
          chunk_count = count (current_date st) optimal_end;
          actual_count = download_data (current_date st) optimal_end chunk_count
      in st\<lparr> total_samples_collected := total_samples_collected st + actual_count,
              downloaded := downloaded st @ [(current_date st, optimal_end, chunk_count)],
              current_date := optimal_end + 1,
              chunk_number := chunk_number st + 1 \<rparr>)"

lemma find_optimal_loop_ge_start:
  "start_date \<le> best_end \<Longrightarrow> start_date \<le> left \<Longrightarrow>
   start_date \<le> fst (find_optimal_loop count start_date left right best_end queried)"
proof (induction count start_date left right best_end queried rule: find_optimal_loop.induct)
  case (1 count start_date left right best_end queried)
  show ?case
    by (subst find_optimal_loop.simps) (use 1 in \<open>auto simp: Let_def\<close>)
qed

lemma find_optimal_end_date_ge_start:
  "start_date \<le> find_optimal_end_date count start_date max_end_date"
  unfolding find_optimal_end_date_def find_optimal_run_def
  by (rule find_optimal_loop_ge_start) simp_all

function download_loop ::
  "count_fn \<Rightarrow> date \<Rightarrow> sample_target \<Rightarrow> driver_state \<Rightarrow> driver_state" where
  "download_loop count final_date samples st =
     (if current_date st < final_date \<and> below_target (total_samples_collected st) samples then
        (let st' = driver_step count final_date st
         in if target_reached (total_samples_collected st') samples then st'
            else download_loop count final_date samples st')
      else st)"
  by pat_completeness auto
termination
proof (relation "measure (\<lambda>(count, final_date, samples, st). nat (final_date - current_date st))")
  fix count :: count_fn and final_date :: date and samples :: sample_target
    and st st' :: driver_state
  assume "current_date st < final_date \<and> below_target (total_samples_collected st) samples"
    and "st' = driver_step count final_date st"
  moreover have "current_date st \<le> find_optimal_end_date count (current_date st) final_date"
    by (rule find_optimal_end_date_ge_start)
  ultimately show "((count, final_date, samples, st'), (count, final_date, samples, st))
      \<in> measure (\<lambda>(count, final_date, samples, st). nat (final_date - current_date st))"
    by (simp add: driver_step_def Let_def)
qed simp

declare download_loop.simps [simp del]

text \<open>
  \<^verbatim>\<open>datetime(year, 1, 1)\<close> and \<^verbatim>\<open>datetime(year, 12, 31)\<close> as day numbers, after
  Python's \<^verbatim>\<open>_days_before_year\<close> and \<^verbatim>\<open>_ymd2ord\<close>; a year outside 1..9999 raises
  \<^verbatim>\<open>ValueError\<close>.
\<close>

datatype error =
    ValueError string
  | TypeError string
  | KeyError string
  | AttributeError string
  | IndexError string
  | RuntimeError string
  | JSONDecodeError
  | ClientResponseError nat
  | HTTPException nat string

definition days_before_year :: "int \<Rightarrow> int" where
  "days_before_year year = (let y = year - 1 in y * 365 + y div 4 - y div 100 + y div 400)"

definition is_leap :: "int \<Rightarrow> bool" where
  "is_leap year = (year mod 4 = 0 \<and> (year mod 100 \<noteq> 0 \<or> year mod 400 = 0))"

definition datetime_jan_1 :: "int \<Rightarrow> error + date" where
  "datetime_jan_1 year =
     (if 1 \<le> year \<and> year \<le> 9999 then Inr (days_before_year year + 1)
      else Inl (ValueError ''year is out of range''))"

definition datetime_dec_31 :: "int \<Rightarrow> error + date" where
  "datetime_dec_31 year =
     (if 1 \<le> year \<and> year \<le> 9999
      then Inr (days_before_year year + (if is_leap year then 335 else 334) + 31)
      else Inl (ValueError ''year is out of range''))"

definition download_data_in_chunks :: "count_fn \<Rightarrow> int \<Rightarrow> int \<Rightarrow> error + driver_state" where
  "download_data_in_chunks count start_year end_year =
     (case datetime_jan_1 start_year of
        Inl e \<Rightarrow> Inl e
      | Inr start \<Rightarrow>
          (case datetime_dec_31 end_year of
             Inl e \<Rightarrow> Inl e
           | Inr final_date \<Rightarrow>
               Inr (download_loop count final_date SAMPLES
                     \<lparr> current_date = start, chunk_number = 1,
                       total_samples_collected = 0, downloaded = [] \<rparr>)))"

section \<open>Python values\<close>

text \<open>
  The values \<^verbatim>\<open>json.load\<close> returns, which are also the values the feature
  dictionaries hold: \<^verbatim>\<open>None\<close>, booleans, integers, floats (as reals), strings, lists
  and dictionaries with string keys. A dictionary is the list of its items in insertion
  order; \<^verbatim>\<open>d[key] = value\<close> is \<open>AList.update\<close>, which replaces the value of a key
  already present where it stands and appends a new key at the end, as Python does.
\<close>

datatype py =
    PyNone
  | PyBool bool
  | PyInt int
  | PyFloat real
  | PyStr string
  | PyList "py list"
  | PyDict "(string \<times> py) list"

type_synonym dict = "(string \<times> py) list"

text \<open>\<^verbatim>\<open>needle in haystack\<close> on two strings: a contiguous substring.\<close>

fun is_substring :: "string \<Rightarrow> string \<Rightarrow> bool" where
  "is_substring xs [] = (xs = [])"
| "is_substring xs (y # ys) = (prefix xs (y # ys) \<or> is_substring xs ys)"

text \<open>
  \<^verbatim>\<open>key in obj\<close> for a string \<open>key\<close>: key membership in a dictionary, element
  membership in a list, the substring test in a string, and \<^verbatim>\<open>TypeError\<close> on
  \<^verbatim>\<open>None\<close>, booleans and numbers.
\<close>

fun py_in :: "string \<Rightarrow> py \<Rightarrow> error + bool" where
  "py_in key (PyDict kvs) = Inr (key \<in> set (map fst kvs))"
| "py_in key (PyList xs) = Inr (PyStr key \<in> set xs)"
| "py_in key (PyStr s) = Inr (is_substring key s)"
| "py_in key obj = Inl (TypeError ''argument is not iterable'')"

text \<open>\<^verbatim>\<open>obj[key]\<close> for a string \<open>key\<close>.\<close>

fun py_getitem :: "py \<Rightarrow> string \<Rightarrow> error + py" where
  "py_getitem (PyDict kvs) key =
     (case map_of kvs key of Some v \<Rightarrow> Inr v | None \<Rightarrow> Inl (KeyError key))"
| "py_getitem (PyList xs) key = Inl (TypeError ''list indices must be integers or slices, not str'')"
| "py_getitem (PyStr s) key = Inl (TypeError ''string indices must be integers'')"
| "py_getitem obj key = Inl (TypeError ''object is not subscriptable'')"

text \<open>\<^verbatim>\<open>obj.items()\<close>: only a dictionary has the method.\<close>

fun py_items :: "py \<Rightarrow> error + dict" where
  "py_items (PyDict kvs) = Inr kvs"
| "py_items obj = Inl (AttributeError ''object has no attribute items'')"

text \<open>The truth value \<^verbatim>\<open>if obj:\<close> tests.\<close>

fun truthy :: "py \<Rightarrow> bool" where
  "truthy PyNone = False"
| "truthy (PyBool b) = b"
| "truthy (PyInt n) = (n \<noteq> 0)"
| "truthy (PyFloat x) = (x \<noteq> 0)"
| "truthy (PyStr s) = (s \<noteq> [])"
| "truthy (PyList xs) = (xs \<noteq> [])"
| "truthy (PyDict kvs) = (kvs \<noteq> [])"

fun py_len :: "py \<Rightarrow> error + nat" where
  "py_len (PyStr s) = Inr (length s)"
| "py_len (PyList xs) = Inr (length xs)"
| "py_len (PyDict kvs) = Inr (length kvs)"
| "py_len obj = Inl (TypeError ''object has no len()'')"

section \<open>The event counter\<close>

text \<open>
  \<^verbatim>\<open>text.strip()\<close> and \<^verbatim>\<open>int(...)\<close> on ASCII text. Python's white space below 128
  is the characters 9 to 13 and 28 to 32. \<^verbatim>\<open>int\<close> reads an optional sign and then
  decimal digits, between two of which a single underscore may stand; it refuses a text
  of more than 4300 digits (the default of \<^verbatim>\<open>sys.set_int_max_str_digits\<close>).
\<close>

definition is_space :: "char \<Rightarrow> bool" where
  "is_space c = (of_char c \<in> {9::nat, 10, 11, 12, 13, 28, 29, 30, 31, 32})"

definition strip :: "string \<Rightarrow> string" where
  "strip s = rev (dropWhile is_space (rev (dropWhile is_space s)))"

definition digit_val :: "char \<Rightarrow> nat option" where
  "digit_val c =
     (if 48 \<le> (of_char c :: nat) \<and> (of_char c :: nat) \<le> 57 then Some (of_char c - 48) else None)"

fun py_digits :: "string \<Rightarrow> nat \<Rightarrow> nat option" where
  "py_digits [] acc = Some acc"
| "py_digits [c] acc = (case digit_val c of Some d \<Rightarrow> Some (acc * 10 + d) | None \<Rightarrow> None)"
| "py_digits (c # d # cs) acc =
     (if c = CHR ''_'' then
        (case digit_val d of Some v \<Rightarrow> py_digits cs (acc * 10 + v) | None \<Rightarrow> None)
      else
        (case digit_val c of Some v \<Rightarrow> py_digits (d # cs) (acc * 10 + v) | None \<Rightarrow> None))"

fun py_nat :: "string \<Rightarrow> nat option" where
  "py_nat [] = None"
| "py_nat (c # cs) = (case digit_val c of Some d \<Rightarrow> py_digits cs d | None \<Rightarrow> None)"

definition int_max_str_digits :: nat where
  "int_max_str_digits = 4300"

definition py_int :: "string \<Rightarrow> int option" where
  "py_int s =
     (case strip s of
        [] \<Rightarrow> None
      | c # cs \<Rightarrow>
          if int_max_str_digits < length (filter (\<lambda>x. digit_val x \<noteq> None) (c # cs)) then None
          else if c = CHR ''-'' then map_option (\<lambda>n. - int n) (py_nat cs)
          else if c = CHR ''+'' then map_option int (py_nat cs)
          else map_option int (py_nat (c # cs)))"

text \<open>
  The HTTP response of the count endpoint, and \<^verbatim>\<open>get_event_count\<close>.
  \<^verbatim>\<open>raise_for_status\<close> raises on a status of 400 or more. \<^verbatim>\<open>json.loads\<close> is a
  parameter \<open>json_loads\<close>, which returns a value or raises. The inner \<^verbatim>\<open>except\<close>
  names \<^verbatim>\<open>JSONDecodeError\<close> only, so any other error of \<^verbatim>\<open>json.loads\<close>, the
  \<^verbatim>\<open>ValueError\<close> raised for a missing count and the \<^verbatim>\<open>TypeError\<close> of \<^verbatim>\<open>in\<close> or
  of the subscript leave the function as they are.
\<close>

record response =
  status :: nat
  body :: string

definition get_event_count :: "(string \<Rightarrow> error + py) \<Rightarrow> response \<Rightarrow> error + py" where
  "get_event_count json_loads resp =
     (if 400 \<le> status resp then Inl (ClientResponseError (status resp))
      else
        (case py_int (strip (body resp)) of
           Some count \<Rightarrow> Inr (PyInt count)
         | None \<Rightarrow>
             (case json_loads (body resp) of
                Inl e \<Rightarrow>
                  if e = JSONDecodeError then Inl (ValueError ''Invalid response from count API'')
                  else Inl e
              | Inr error_data \<Rightarrow>
                  (case py_in ''count'' error_data of
                     Inl e \<Rightarrow> Inl e
                   | Inr True \<Rightarrow> py_getitem error_data ''count''
                   | Inr False \<Rightarrow> Inl (ValueError ''Count not found in error response'')))))"

text \<open>The decimal notation of an integer, the body of a bare count.\<close>

definition digit_char :: "nat \<Rightarrow> char" where
  "digit_char d = ''0123456789'' ! d"

fun decimal_nat :: "nat \<Rightarrow> string" where
  "decimal_nat n = (if n < 10 then [digit_char n] else decimal_nat (n div 10) @ [digit_char (n mod 10)])"

declare decimal_nat.simps [simp del]

definition decimal :: "int \<Rightarrow> string" where
  "decimal i = (if i < 0 then CHR ''-'' # decimal_nat (nat (- i)) else decimal_nat (nat i))"

definition digit_count :: "int \<Rightarrow> nat" where
  "digit_count i = length (decimal_nat (nat \<bar>i\<bar>))"

text \<open>A string of decimal digits.\<close>

definition is_digits :: "string \<Rightarrow> bool" where
  "is_digits ds = (\<forall>c \<in> set ds. \<exists>d < 10. c = digit_char d)"

text \<open>
  The body the endpoint sends when the count exceeds its limit, as far as the code
  reads it: a JSON object with a \<^verbatim>\<open>count\<close> field (\<open>CHR 0x22\<close> is the double quote).
\<close>

definition example_error_body :: string where
  "example_error_body = ''{'' @ [CHR 0x22] @ ''count'' @ [CHR 0x22] @ '': 25000}''"

section \<open>The file joiner\<close>

text \<open>Source: \<^verbatim>\<open>src/app/models/data/join_data.py\<close>.\<close>

definition avoid_keys :: "string list" where
  "avoid_keys = [''id'', ''url'', ''detail'', ''code'', ''ids'', ''sources'', ''types'',
                 ''title'', ''status'', ''type'']"

text \<open>One of the two \<^verbatim>\<open>for key, value in ....items()\<close> loops of \<^verbatim>\<open>parse_feature\<close>.\<close>

fun copy_items :: "dict \<Rightarrow> dict \<Rightarrow> dict" where
  "copy_items [] parsed_feature = parsed_feature"
| "copy_items ((key, value) # rest) parsed_feature =
     copy_items rest
       (if key \<notin> set avoid_keys then AList.update key value parsed_feature
        else parsed_feature)"

definition copy_section :: "string \<Rightarrow> py \<Rightarrow> dict \<Rightarrow> error + dict" where
  "copy_section name feature parsed_feature =
     (case py_in name feature of
        Inl e \<Rightarrow> Inl e
      | Inr False \<Rightarrow> Inr parsed_feature
      | Inr True \<Rightarrow>
          (case py_getitem feature name of
             Inl e \<Rightarrow> Inl e
           | Inr section \<Rightarrow>
               (case py_items section of
                  Inl e \<Rightarrow> Inl e
                | Inr items \<Rightarrow> Inr (copy_items items parsed_feature))))"

definition parse_feature :: "py \<Rightarrow> error + dict" where
  "parse_feature feature =
     (case copy_section ''properties'' feature [] of
        Inl e \<Rightarrow> Inl e
      | Inr parsed_feature \<Rightarrow> copy_section ''geometry'' feature parsed_feature)"

text \<open>
  For the statements about \<open>parse_feature\<close>: the items of a section of a feature
  record, where a missing section has none and a section that is not a dictionary has
  no items to read (\<^verbatim>\<open>.items()\<close> raises).
\<close>

fun section_items :: "py option \<Rightarrow> dict option" where
  "section_items None = Some []"
| "section_items (Some (PyDict kvs)) = Some kvs"
| "section_items (Some obj) = None"

definition example_feature :: py where
  "example_feature =
     PyDict [(''properties'', PyDict [(''mag'', PyFloat 5.1), (''id'', PyStr ''xyz''),
                                      (''place'', PyStr ''Tokyo'')]),
             (''geometry'', PyDict [(''type'', PyStr ''Point''),
                                    (''coordinates'', PyList [PyInt 1, PyInt 2])])]"

text \<open>
  \<open>join_data_files\<close>. The chunk files are a list of names with their text, in the
  order \<^verbatim>\<open>glob\<close> gives them. \<^verbatim>\<open>json.load\<close> is a parameter \<open>json_load\<close>, which
  returns a value or raises, and \<^verbatim>\<open>json.dump\<close> (with its separators) is a
  parameter \<open>dumps\<close> giving the text written for a parsed feature. The state is the
  text written to the output file so far, \<open>first_feature\<close>, \<open>total_events\<close> and the
  lines printed. An exception that leaves a loop is the second component of its
  result, beside the state at the raise: what was written stays in the file.
\<close>

datatype log_entry =
    Found nat
  | Processing nat nat string
  | Added nat nat
  | ErrorProcessing string error
  | Joined nat

record join_state =
  out_f :: string
  first_feature :: bool
  total_events :: nat
  printed :: "log_entry list"

definition newline :: string where
  "newline = [CHR 0x0A]"

text \<open>The body of the loop over the features of one file, up to \<^verbatim>\<open>json.dump\<close>.\<close>

definition write_feature :: "(dict \<Rightarrow> string) \<Rightarrow> py \<Rightarrow> join_state \<Rightarrow> join_state \<times> error option" where
  "write_feature dumps feature st =
     (case parse_feature feature of
        Inl e \<Rightarrow> (st, Some e)
      | Inr parsed_feature \<Rightarrow>
          (let st1 = (if \<not> first_feature st then st\<lparr>out_f := out_f st @ '','' @ newline\<rparr>
                      else st\<lparr>first_feature := False\<rparr>)
           in (st1\<lparr>out_f := out_f st1 @ dumps parsed_feature\<rparr>, None)))"

fun write_all :: "(dict \<Rightarrow> string) \<Rightarrow> py list \<Rightarrow> join_state \<Rightarrow> join_state \<times> error option" where
  "write_all dumps [] st = (st, None)"
| "write_all dumps (feature # rest) st =
     (case write_feature dumps feature st of
        (st', Some e) \<Rightarrow> (st', Some e)
      | (st', None) \<Rightarrow> write_all dumps rest st')"

text \<open>
  \<^verbatim>\<open>for j, feature in enumerate(features)\<close> with \<^verbatim>\<open>features[j] = None\<close> at the end
  of the body. A list is walked to its end. A string yields its first character and
  then refuses the assignment; a dictionary yields its first key, takes the new key
  \<open>j\<close>, and refuses the next step of the iteration because its size changed.
\<close>

fun write_features :: "(dict \<Rightarrow> string) \<Rightarrow> py \<Rightarrow> join_state \<Rightarrow> join_state \<times> error option" where
  "write_features dumps (PyList fs) st = write_all dumps fs st"
| "write_features dumps (PyStr []) st = (st, None)"
| "write_features dumps (PyStr (c # cs)) st =
     (case write_feature dumps (PyStr [c]) st of
        (st', Some e) \<Rightarrow> (st', Some e)
      | (st', None) \<Rightarrow> (st', Some (TypeError ''str object does not support item assignment'')))"
| "write_features dumps (PyDict []) st = (st, None)"
| "write_features dumps (PyDict ((key, value) # rest)) st =
     (case write_feature dumps (PyStr key) st of
        (st', Some e) \<Rightarrow> (st', Some e)
      | (st', None) \<Rightarrow> (st', Some (RuntimeError ''dictionary changed size during iteration'')))"
| "write_features dumps obj st = (st, Some (TypeError ''object is not iterable''))"

text \<open>The body of the \<^verbatim>\<open>try\<close> after \<^verbatim>\<open>json.load\<close>.\<close>

definition process_data :: "(dict \<Rightarrow> string) \<Rightarrow> py \<Rightarrow> join_state \<Rightarrow> join_state \<times> error option" where
  "process_data dumps data st =
     (case py_in ''features'' data of
        Inl e \<Rightarrow> (st, Some e)
      | Inr False \<Rightarrow> (st, None)
      | Inr True \<Rightarrow>
          (case py_getitem data ''features'' of
             Inl e \<Rightarrow> (st, Some e)
           | Inr features \<Rightarrow>
               if truthy features then
                 (case py_len features of
                    Inl e \<Rightarrow> (st, Some e)
                  | Inr file_event_count \<Rightarrow>
                      (case write_features dumps features st of
                         (st', Some e) \<Rightarrow> (st', Some e)
                       | (st', None) \<Rightarrow>
                           (let total = total_events st' + file_event_count
                            in (st'\<lparr>total_events := total,
                                    printed := printed st' @ [Added file_event_count total]\<rparr>,
                                None))))
               else (st, None)))"

text \<open>\<^verbatim>\<open>except (json.JSONDecodeError, KeyError)\<close>.\<close>

fun caught :: "error \<Rightarrow> bool" where
  "caught JSONDecodeError = True"
| "caught (KeyError k) = True"
| "caught e = False"

text \<open>The body of the \<^verbatim>\<open>try\<close>: \<^verbatim>\<open>json.load\<close>, then the work on its value.\<close>

definition try_file ::
  "(string \<Rightarrow> error + py) \<Rightarrow> (dict \<Rightarrow> string) \<Rightarrow> string \<Rightarrow> join_state \<Rightarrow>
   join_state \<times> error option" where
  "try_file json_load dumps content st =
     (case json_load content of
        Inl e \<Rightarrow> (st, Some e)
      | Inr data \<Rightarrow> process_data dumps data st)"

fun join_loop ::
  "(string \<Rightarrow> error + py) \<Rightarrow> (dict \<Rightarrow> string) \<Rightarrow> nat \<Rightarrow> nat \<Rightarrow> (string \<times> string) list \<Rightarrow>
   join_state \<Rightarrow> join_state \<times> error option" where
  "join_loop json_load dumps n i [] st = (st, None)"
| "join_loop json_load dumps n i ((name, content) # rest) st =
     (let st0 = st\<lparr>printed := printed st @ [Processing (i + 1) n name]\<rparr>
      in case try_file json_load dumps content st0 of
           (st1, None) \<Rightarrow> join_loop json_load dumps n (i + 1) rest st1
         | (st1, Some e) \<Rightarrow>
             if caught e then
               join_loop json_load dumps n (i + 1) rest
                 (st1\<lparr>printed := printed st1 @ [ErrorProcessing name e]\<rparr>)
             else (st1, Some e))"

definition join_data_files ::
  "(string \<Rightarrow> error + py) \<Rightarrow> (dict \<Rightarrow> string) \<Rightarrow> (string \<times> string) list \<Rightarrow>
   join_state \<times> error option" where
  "join_data_files json_load dumps files =
     (case join_loop json_load dumps (length files) 0 files
             \<lparr>out_f = ''['' @ newline, first_feature = True, total_events = 0,
              printed = [Found (length files)]\<rparr> of
        (st, Some e) \<Rightarrow> (st, Some e)
      | (st, None) \<Rightarrow>
          (st\<lparr>out_f := out_f st @ newline @ '']'',
              printed := printed st @ [Joined (total_events st)]\<rparr>, None))"

text \<open>
  For the statements about the joiner. A JSON array in the joiner's layout holds the
  items between \<^verbatim>\<open>[\<close> and \<^verbatim>\<open>]\<close>, each on a line of its own, with a comma after
  every item but the last.
\<close>

fun sep_join :: "string \<Rightarrow> string list \<Rightarrow> string" where
  "sep_join sep [] = []"
| "sep_join sep [x] = x"
| "sep_join sep (x # y # ys) = x @ sep @ sep_join sep (y # ys)"

definition json_array_text :: "string list \<Rightarrow> string" where
  "json_array_text items = ''['' @ newline @ sep_join ('','' @ newline) items @ newline @ '']''"

text \<open>
  The features of a chunk the joiner reads to its end: those of a dictionary whose
  \<^verbatim>\<open>features\<close> entry is a list, or is missing or false (then there are none); and
  their projections by \<open>parse_feature\<close>.
\<close>

fun features_of :: "py \<Rightarrow> py list option" where
  "features_of (PyDict kvs) =
     (case map_of kvs ''features'' of
        None \<Rightarrow> Some []
      | Some (PyList fs) \<Rightarrow> Some fs
      | Some v \<Rightarrow> if truthy v then None else Some [])"
| "features_of obj = None"

fun projections :: "py list \<Rightarrow> dict list option" where
  "projections [] = Some []"
| "projections (f # fs) =
     (case parse_feature f of
        Inl e \<Rightarrow> None
      | Inr p \<Rightarrow> map_option ((#) p) (projections fs))"

definition chunk_projections :: "py \<Rightarrow> dict list option" where
  "chunk_projections data =
     (case features_of data of None \<Rightarrow> None | Some fs \<Rightarrow> projections fs)"

text \<open>
  What a file contributes: nothing when \<^verbatim>\<open>json.load\<close> rejects it with an error the
  \<^verbatim>\<open>except\<close> clause names, the projections of its features when it is a chunk of
  the shape above. The other cases, another error of \<^verbatim>\<open>json.load\<close> or JSON of another
  shape, are \<open>None\<close>.
\<close>

definition file_projections :: "(string \<Rightarrow> error + py) \<Rightarrow> string \<Rightarrow> dict list option" where
  "file_projections json_load content =
     (case json_load content of
        Inl e \<Rightarrow> if caught e then Some [] else None
      | Inr data \<Rightarrow> chunk_projections data)"

fun all_projections :: "(string \<Rightarrow> error + py) \<Rightarrow> (string \<times> string) list \<Rightarrow> dict list option" where
  "all_projections json_load [] = Some []"
| "all_projections json_load ((name, content) # rest) =
     (case file_projections json_load content of
        None \<Rightarrow> None
      | Some ps \<Rightarrow> map_option ((@) ps) (all_projections json_load rest))"

text \<open>The names of the files for which an error line was printed.\<close>

fun error_files :: "log_entry list \<Rightarrow> string list" where
  "error_files [] = []"
| "error_files (ErrorProcessing name e # rest) = name # error_files rest"
| "error_files (entry # rest) = error_files rest"

definition parsable :: "(string \<Rightarrow> error + py) \<Rightarrow> string \<times> string \<Rightarrow> bool" where
  "parsable json_load file = (case json_load (snd file) of Inl e \<Rightarrow> False | Inr data \<Rightarrow> True)"

text \<open>
  The state of the joiner after the parsed features \<open>ps\<close> have been written: the
  opening bracket, the features with their separators, and \<open>first_feature\<close> still set
  exactly when nothing was written.
\<close>

definition join_inv :: "(dict \<Rightarrow> string) \<Rightarrow> join_state \<Rightarrow> dict list \<Rightarrow> bool" where
  "join_inv dumps st ps =
     (out_f st = ''['' @ newline @ sep_join ('','' @ newline) (map dumps ps) \<and>
      first_feature st = (ps = []))"

text \<open>
  A stand-in for \<^verbatim>\<open>json.load\<close>, which reads four file texts and rejects every
  other, and one for \<^verbatim>\<open>json.dump\<close>, which writes the keys only.
\<close>

definition example_load :: "string \<Rightarrow> error + py" where
  "example_load text =
     (if text = ''chunk A'' then
        Inr (PyDict [(''type'', PyStr ''FeatureCollection''),
                     (''features'', PyList [example_feature])])
      else if text = ''chunk B'' then
        Inr (PyDict [(''features'',
               PyList [PyDict [(''properties'', PyDict [(''mag'', PyFloat 6)])]])])
      else if text = ''{}'' then Inr (PyDict [])
      else if text = ''null'' then Inr PyNone
      else Inl JSONDecodeError)"

definition example_dumps :: "dict \<Rightarrow> string" where
  "example_dumps d = ''{'' @ sep_join '','' (map fst d) @ ''}''"

section \<open>The inference service\<close>

text \<open>
  Source: \<^verbatim>\<open>src/app/models/test.py\<close> and \<^verbatim>\<open>src/app/routers/predict.py\<close>.
  Python's floats are modelled by the reals. \<^verbatim>\<open>int(x)\<close> on a float rounds towards
  zero.
\<close>

definition py_trunc :: "real \<Rightarrow> int" where
  "py_trunc x = (if 0 \<le> x then \<lfloor>x\<rfloor> else \<lceil>x\<rceil>)"

definition calculate_kinetic_energy :: "real \<Rightarrow> real \<Rightarrow> real" where
  "calculate_kinetic_energy mass_kg velocity_ms = 0.5 * mass_kg * velocity_ms ^ 2"

definition energy_to_magnitude :: "real \<Rightarrow> error + real" where
  "energy_to_magnitude energy_joules =
     (if energy_joules \<le> 0 then Inl (ValueError ''Energy must be positive'')
      else (let log_energy = log 10 energy_joules;
                magnitude = (log_energy - 4.8) / 1.5
            in Inr magnitude))"

text \<open>
  \<open>generate_seismic_features\<close> reads the clock and draws the depth; both are inputs
  here: \<open>now_ms\<close> is \<^verbatim>\<open>int(datetime.now().timestamp() * 1000)\<close> and \<open>depth_sample\<close> is
  \<^verbatim>\<open>np.random.uniform(0, 5)\<close>. The result is the dictionary \<^verbatim>\<open>features\<close>, its keys
  in the order of the assignments.
\<close>

definition generate_seismic_features :: "int \<Rightarrow> real \<Rightarrow> real \<Rightarrow> real \<Rightarrow> real \<Rightarrow> dict" where
  "generate_seismic_features now_ms depth_sample magnitude latitude longitude =
     (let depth = depth_sample;
          cdi = (if magnitude \<ge> 7.0 then 6.0
                 else if magnitude \<ge> 6.0 then 4.0
                 else if magnitude \<ge> 5.0 then 3.0
                 else (2.0 :: real));
          mmi = (if magnitude \<ge> 7.0 then 7.0
                 else if magnitude \<ge> 6.0 then 5.0
                 else if magnitude \<ge> 5.0 then 4.0
                 else (3.0 :: real));
          base_felt = max 0 (py_trunc ((magnitude - 3) * 1000));
          sig = py_trunc (magnitude * 100 + 100);
          alert =
            (if magnitude \<ge> 7.0 \<or> sig \<ge> 1000 \<or> mmi \<ge> 8.0 \<or> cdi \<ge> 7.0 then 4
             else if magnitude \<ge> 6.5 \<or> sig \<ge> 700 \<or> mmi \<ge> 6.5 \<or> cdi \<ge> 5.5 \<or>
                     (magnitude \<ge> 6.0 \<and> depth \<le> 10) then 3
             else if magnitude \<ge> 6.0 \<or> sig \<ge> 400 \<or> mmi \<ge> 5.0 \<or> cdi \<ge> 4.0 \<or>
                     (magnitude \<ge> 5.5 \<and> depth \<le> 20) then 2
             else if magnitude \<ge> 5.5 \<or> sig \<ge> 200 \<or> mmi \<ge> 4.0 \<or> cdi \<ge> 3.0 \<or>
                     (magnitude \<ge> 5.0 \<and> depth \<le> 30) then 1
             else (0 :: int))
      in [(''mag'', PyFloat magnitude),
          (''latitude'', PyFloat latitude),
          (''longitude'', PyFloat longitude),
          (''time'', PyInt now_ms),
          (''depth'', PyFloat depth),
          (''cdi'', PyFloat cdi),
          (''mmi'', PyFloat mmi),
          (''felt'', PyInt base_felt),
          (''sig'', PyInt sig),
          (''alert'', PyInt alert),
          (''tsunami'', PyInt 0),
          (''magType'', PyInt 24)])"

text \<open>Sequencing of steps that may raise, and a loop that stops at the first raise.\<close>

definition bind_err :: "error + 'a \<Rightarrow> ('a \<Rightarrow> error + 'b) \<Rightarrow> error + 'b" where
  "bind_err r f = (case r of Inl e \<Rightarrow> Inl e | Inr x \<Rightarrow> f x)"

fun map_err :: "('a \<Rightarrow> error + 'b) \<Rightarrow> 'a list \<Rightarrow> error + 'b list" where
  "map_err f [] = Inr []"
| "map_err f (x # xs) = bind_err (f x) (\<lambda>y. bind_err (map_err f xs) (\<lambda>ys. Inr (y # ys)))"

text \<open>
  A number read from a value where numpy builds a float array, and \<^verbatim>\<open>d[key]\<close> on a
  dictionary.
\<close>

fun py_float :: "py \<Rightarrow> error + real" where
  "py_float (PyInt n) = Inr (real_of_int n)"
| "py_float (PyFloat x) = Inr x"
| "py_float (PyBool b) = Inr (if b then 1 else 0)"
| "py_float (PyStr s) = Inl (ValueError ''could not convert string to float'')"
| "py_float obj = Inl (TypeError ''float() argument must be a string or a real number'')"

definition lookup :: "(string \<times> 'a) list \<Rightarrow> string \<Rightarrow> error + 'a" where
  "lookup d key = (case map_of d key of Some v \<Rightarrow> Inr v | None \<Rightarrow> Inl (KeyError key))"

definition lookup_float :: "dict \<Rightarrow> string \<Rightarrow> error + real" where
  "lookup_float d key = bind_err (lookup d key) py_float"

text \<open>
  A data frame read by \<^verbatim>\<open>pd.read_csv\<close>: its column names and its rows, indexed by
  their position. A row as a series pairs the column names with its cells.
\<close>

record dataframe =
  df_columns :: "string list"
  df_rows :: "py list list"

definition series :: "dataframe \<Rightarrow> py list \<Rightarrow> dict" where
  "series df row = zip (df_columns df) row"

text \<open>\<^verbatim>\<open>value == cluster_id\<close> on a cell of the \<^verbatim>\<open>cluster\<close> column.\<close>

fun py_eq_int :: "py \<Rightarrow> int \<Rightarrow> bool" where
  "py_eq_int (PyInt n) k = (n = k)"
| "py_eq_int (PyFloat x) k = (x = real_of_int k)"
| "py_eq_int (PyBool b) k = ((if b then 1 else 0) = k)"
| "py_eq_int obj k = False"

definition euclidean_distance :: "real list \<Rightarrow> real list \<Rightarrow> real" where
  "euclidean_distance xs ys = sqrt (\<Sum>(x, y) \<leftarrow> zip xs ys. (x - y) ^ 2)"

text \<open>\<^verbatim>\<open>np.argmin\<close>: the position of the first least element.\<close>

fun argmin_from :: "real list \<Rightarrow> nat \<Rightarrow> nat \<Rightarrow> real \<Rightarrow> nat" where
  "argmin_from [] i best_i best = best_i"
| "argmin_from (x # xs) i best_i best =
     (if x < best then argmin_from xs (i + 1) i x else argmin_from xs (i + 1) best_i best)"

definition argmin :: "real list \<Rightarrow> nat" where
  "argmin xs = (case xs of [] \<Rightarrow> 0 | x # rest \<Rightarrow> argmin_from rest 1 0 x)"

definition comparison_features :: "string list" where
  "comparison_features = [''mag'', ''depth'', ''latitude'', ''longitude'', ''sig'', ''cdi'', ''mmi'']"

text \<open>
  \<open>find_closest_in_cluster\<close>. \<open>None\<close> is the triple of \<^verbatim>\<open>None\<close>s; otherwise the
  result is the closest row of the cluster, the row of the original data at the same
  index, and the distance. The rows of the cluster keep their index in
  \<open>clustered_data\<close>, which \<^verbatim>\<open>iloc\<close> then reads as a position in \<open>original_data\<close>.
\<close>

text \<open>
  \<^verbatim>\<open>clustered_data[clustered_data['cluster'] == cluster_id]\<close>: the rows of the
  cluster, each with its index.
\<close>

definition cluster_rows :: "int \<Rightarrow> dataframe \<Rightarrow> (nat \<times> dict) list" where
  "cluster_rows cluster_id clustered_data =
     filter (\<lambda>(name, row). case map_of row ''cluster'' of
                              Some v \<Rightarrow> py_eq_int v cluster_id | None \<Rightarrow> False)
       (enumerate 0 (map (series clustered_data) (df_rows clustered_data)))"

definition find_closest_in_cluster ::
  "int \<Rightarrow> (string \<times> real) list \<Rightarrow> dataframe \<Rightarrow> dataframe \<Rightarrow> error + (dict \<times> dict \<times> real) option" where
  "find_closest_in_cluster cluster_id synthetic_features clustered_data original_data =
     (if ''cluster'' \<notin> set (df_columns clustered_data) then Inl (KeyError ''cluster'')
      else
        (let cluster_data = cluster_rows cluster_id clustered_data
         in if length cluster_data = 0 then Inr None
            else
              bind_err (map_err (lookup synthetic_features) comparison_features) (\<lambda>synthetic_array.
              bind_err (map_err (\<lambda>(name, row). map_err (lookup_float row) comparison_features)
                          cluster_data) (\<lambda>cluster_array.
              (let distances = map (euclidean_distance synthetic_array) cluster_array;
                   closest_idx = argmin distances;
                   (name, closest_example_normalized) = cluster_data ! closest_idx
               in if name < length (df_rows original_data) then
                    Inr (Some (closest_example_normalized,
                               series original_data (df_rows original_data ! name),
                               distances ! closest_idx))
                  else Inl (IndexError ''single positional indexer is out-of-bounds''))))))"

text \<open>
  The model artifacts, as the files hold them: \<open>None\<close> for a file that cannot be
  loaded. The clustering model and the scaler are used through \<^verbatim>\<open>predict\<close> and
  \<^verbatim>\<open>transform\<close> only, which are opaque functions here.
\<close>

record artifact_store =
  kmeans_pkl :: "(real list \<Rightarrow> error + int) option"
  scaler_pkl :: "(real list \<Rightarrow> error + real list) option"
  model_info_pkl :: "(string \<times> string list) list option"
  clustered_csv :: "dataframe option"
  dataset_csv :: "dataframe option"

record environment =
  now_ms :: int
  depth_sample :: real

definition all_features :: "string list" where
  "all_features = [''mag'', ''time'', ''felt'', ''cdi'', ''mmi'', ''alert'', ''sig'', ''tsunami'',
                   ''magType'', ''longitude'', ''latitude'', ''depth'']"

definition keep_original :: "string list" where
  "keep_original = [''mag'', ''latitude'', ''longitude'']"

text \<open>The loop that assembles \<^verbatim>\<open>full_feature_array\<close>, with its \<^verbatim>\<open>normalize_idx\<close>.\<close>

fun fill_feature_array ::
  "string list \<Rightarrow> string list \<Rightarrow> real list \<Rightarrow> nat \<Rightarrow> dict \<Rightarrow> error + real list" where
  "fill_feature_array [] features_to_normalize normalized_subset normalize_idx synthetic_features
     = Inr []"
| "fill_feature_array (feature # rest) features_to_normalize normalized_subset normalize_idx
       synthetic_features =
     (if feature \<in> set features_to_normalize then
        (if normalize_idx < length normalized_subset then
           bind_err (fill_feature_array rest features_to_normalize normalized_subset
                       (normalize_idx + 1) synthetic_features)
             (\<lambda>tail. Inr (normalized_subset ! normalize_idx # tail))
         else Inl (IndexError ''index out of bounds''))
      else
        bind_err (lookup_float synthetic_features feature) (\<lambda>x.
        bind_err (fill_feature_array rest features_to_normalize normalized_subset
                    normalize_idx synthetic_features)
          (\<lambda>tail. Inr (x # tail))))"

text \<open>\<^verbatim>\<open>xs.index(x)\<close> where \<open>x\<close> is in \<open>xs\<close>.\<close>

fun index_of :: "'a \<Rightarrow> 'a list \<Rightarrow> nat" where
  "index_of x [] = 0"
| "index_of x (y # ys) = (if x = y then 0 else index_of x ys + 1)"

text \<open>
  The dictionary comprehension
  \<^verbatim>\<open>{f: normalized_subset[features_to_normalize.index(f)] for f in features_to_normalize}\<close>.
\<close>

fun normalized_dict :: "string list \<Rightarrow> string list \<Rightarrow> real list \<Rightarrow> error + (string \<times> real) list" where
  "normalized_dict [] features_to_normalize normalized_subset = Inr []"
| "normalized_dict (f # fs) features_to_normalize normalized_subset =
     (let i = index_of f features_to_normalize
      in if i < length normalized_subset then
           bind_err (normalized_dict fs features_to_normalize normalized_subset)
             (\<lambda>d. Inr ((f, normalized_subset ! i) # filter (\<lambda>(k, v). k \<noteq> f) d))
         else Inl (IndexError ''index out of bounds''))"

text \<open>
  The loop \<^verbatim>\<open>for column in closest_original.index\<close> that overwrites the fields of
  the copy of the synthetic features.
\<close>

fun refine :: "dict \<Rightarrow> dict \<Rightarrow> dict" where
  "refine [] refined_features = refined_features"
| "refine ((column, value) # rest) refined_features =
     refine rest
       (if column \<notin> set keep_original then AList.update column value refined_features
        else refined_features)"

text \<open>
  What \<open>predict_seismic_impact\<close> returns: a bare \<^verbatim>\<open>None\<close> when an artifact does not
  load (\<open>NoPrediction\<close>), or the triple of the features, the energy and the cluster.
  The caller tests the first component of the triple against \<^verbatim>\<open>None\<close>, so its type
  admits it; \<open>predict_seismic_impact\<close> itself always puts a dictionary there.
\<close>

datatype prediction = NoPrediction | Prediction "dict option" real int

definition predict_seismic_impact ::
  "environment \<Rightarrow> artifact_store \<Rightarrow> real \<Rightarrow> real \<Rightarrow> real \<Rightarrow> real \<Rightarrow> error + prediction" where
  "predict_seismic_impact env store mass_kg velocity_ms latitude longitude =
     (let energy = calculate_kinetic_energy mass_kg velocity_ms
      in bind_err (energy_to_magnitude energy) (\<lambda>magnitude.
         (let synthetic_features =
                generate_seismic_features (now_ms env) (depth_sample env) magnitude latitude longitude
          in case (kmeans_pkl store, scaler_pkl store, model_info_pkl store,
                   clustered_csv store, dataset_csv store) of
               (Some kmeans, Some scaler, Some model_info, Some clustered_data, Some original_data) \<Rightarrow>
                 bind_err (lookup model_info ''features_to normalize'') (\<lambda>features_to_normalize.
                 bind_err (map_err (lookup_float synthetic_features) features_to_normalize)
                   (\<lambda>feature_values_to_normalize.
                 bind_err (scaler feature_values_to_normalize) (\<lambda>normalized_subset.
                 bind_err (fill_feature_array all_features features_to_normalize normalized_subset 0
                             synthetic_features) (\<lambda>full_feature_array.
                 bind_err (kmeans full_feature_array) (\<lambda>predicted_cluster.
                 bind_err (normalized_dict features_to_normalize features_to_normalize
                             normalized_subset) (\<lambda>normalized_features.
                 bind_err (find_closest_in_cluster predicted_cluster normalized_features
                             clustered_data original_data) (\<lambda>closest.
                 (case closest of
                    Some (closest_normalized, closest_original, distance) \<Rightarrow>
                      Inr (Prediction (Some (refine closest_original synthetic_features)) energy
                             predicted_cluster)
                  | None \<Rightarrow>
                      Inr (Prediction (Some synthetic_features) energy predicted_cluster)))))))))
             | _ \<Rightarrow> Inr NoPrediction)))"

text \<open>
  The endpoint \<^verbatim>\<open>POST /predict\<close>. An \<^verbatim>\<open>HTTPException\<close> is the error
  \<open>HTTPException status detail\<close>. \<^verbatim>\<open>str(e)\<close> is \<open>error_str\<close>. \<^verbatim>\<open>float(...)\<close> on a
  string is the parameter \<open>parse_float\<close>. The \<^verbatim>\<open>message\<close> of the response, a formatted
  text, is not modelled.
\<close>

record prediction_data =
  mass :: real
  velocity :: real
  latitude :: real
  longitude :: real

record prediction_response =
  success :: bool
  magnitude :: real
  energy :: real
  cluster :: int
  alert_level :: string
  alert_level_numeric :: int
  intensity_mmi :: real
  community_intensity_cdi :: real
  significance :: real
  depth :: real
  tsunami_warning :: bool
  location :: "(string \<times> real) list"
  asteroid_properties :: "(string \<times> real) list"

fun error_str :: "error \<Rightarrow> string" where
  "error_str (ValueError m) = m"
| "error_str (TypeError m) = m"
| "error_str (KeyError k) = [CHR 0x27] @ k @ [CHR 0x27]"
| "error_str (AttributeError m) = m"
| "error_str (IndexError m) = m"
| "error_str (RuntimeError m) = m"
| "error_str JSONDecodeError = ''''"
| "error_str (ClientResponseError n) = ''''"
| "error_str (HTTPException n d) = d"

fun py_to_int :: "py \<Rightarrow> error + int" where
  "py_to_int (PyInt n) = Inr n"
| "py_to_int (PyFloat x) = Inr (py_trunc x)"
| "py_to_int (PyBool b) = Inr (if b then 1 else 0)"
| "py_to_int (PyStr s) =
     (case py_int s of Some n \<Rightarrow> Inr n
      | None \<Rightarrow> Inl (ValueError ''invalid literal for int() with base 10''))"
| "py_to_int obj = Inl (TypeError ''int() argument must be a string or a real number'')"

fun py_to_float :: "(string \<Rightarrow> real option) \<Rightarrow> py \<Rightarrow> error + real" where
  "py_to_float parse_float (PyStr s) =
     (case parse_float s of Some x \<Rightarrow> Inr x
      | None \<Rightarrow> Inl (ValueError ''could not convert string to float''))"
| "py_to_float parse_float obj = py_float obj"

definition alert_names :: "(int \<times> string) list" where
  "alert_names = [(0, ''No Alert''), (1, ''Green''), (2, ''Yellow''), (3, ''Orange''), (4, ''Red'')]"

text \<open>\<^verbatim>\<open>result, energy, cluster = predict_seismic_impact(...)\<close>.\<close>

fun unpack3 :: "prediction \<Rightarrow> error + dict option \<times> real \<times> int" where
  "unpack3 NoPrediction = Inl (TypeError ''cannot unpack non-iterable NoneType object'')"
| "unpack3 (Prediction result e c) = Inr (result, e, c)"

text \<open>The body of the \<^verbatim>\<open>try\<close>; a validation failure is already an \<^verbatim>\<open>HTTPException\<close>.\<close>

definition predict_body ::
  "(string \<Rightarrow> real option) \<Rightarrow> environment \<Rightarrow> artifact_store \<Rightarrow> prediction_data \<Rightarrow>
   error + prediction_response" where
  "predict_body parse_float env store data =
     (if mass data \<le> 0 then Inl (HTTPException 400 ''Mass must be positive'')
      else if velocity data \<le> 0 then Inl (HTTPException 400 ''Velocity must be positive'')
      else if \<not> (- 90 \<le> latitude data \<and> latitude data \<le> 90) then
        Inl (HTTPException 400 ''Latitude must be between -90 and 90 degrees'')
      else if \<not> (- 180 \<le> longitude data \<and> longitude data \<le> 180) then
        Inl (HTTPException 400 ''Longitude must be between -180 and 180 degrees'')
      else
        bind_err (predict_seismic_impact env store (mass data) (velocity data)
                    (latitude data) (longitude data)) (\<lambda>returned.
        bind_err (unpack3 returned) (\<lambda>(returned_result, energy_joules, cluster_id).
        (case returned_result of
           None \<Rightarrow> Inl (HTTPException 500 ''Prediction model failed to load or execute'')
         | Some result \<Rightarrow>
        bind_err (bind_err (lookup result ''alert'') py_to_int) (\<lambda>alert_numeric.
        (let alert_name = (case map_of alert_names alert_numeric of
                             Some name \<Rightarrow> name | None \<Rightarrow> ''Unknown'')
         in bind_err (bind_err (lookup result ''mag'') (py_to_float parse_float)) (\<lambda>mag.
            bind_err (bind_err (lookup result ''mmi'') (py_to_float parse_float)) (\<lambda>mmi.
            bind_err (bind_err (lookup result ''cdi'') (py_to_float parse_float)) (\<lambda>cdi.
            bind_err (bind_err (lookup result ''sig'') (py_to_float parse_float)) (\<lambda>sig.
            bind_err (bind_err (lookup result ''depth'') (py_to_float parse_float)) (\<lambda>dep.
            bind_err (lookup result ''tsunami'') (\<lambda>tsunami.
              Inr \<lparr>success = True, magnitude = mag, energy = energy_joules,
                   cluster = cluster_id, alert_level = alert_name,
                   alert_level_numeric = alert_numeric, intensity_mmi = mmi,
                   community_intensity_cdi = cdi, significance = sig, depth = dep,
                   tsunami_warning = truthy tsunami,
                   location = [(''latitude'', latitude data), (''longitude'', longitude data)],
                   asteroid_properties =
                     [(''mass_kg'', mass data), (''velocity_ms'', velocity data),
                      (''kinetic_energy_joules'', energy_joules)]\<rparr>))))))))))))"

text \<open>
  \<^verbatim>\<open>except HTTPException: raise\<close> and
  \<^verbatim>\<open>except Exception as e: raise HTTPException(500, f"Internal server error: {str(e)}")\<close>.
  The test \<^verbatim>\<open>if result is None\<close> stands after the unpacking of the returned value,
  in \<open>predict_body\<close>.
\<close>

fun reraise :: "error \<Rightarrow> error" where
  "reraise (HTTPException n d) = HTTPException n d"
| "reraise e = HTTPException 500 (''Internal server error: '' @ error_str e)"

definition predict ::
  "(string \<Rightarrow> real option) \<Rightarrow> environment \<Rightarrow> artifact_store \<Rightarrow> prediction_data \<Rightarrow>
   error + prediction_response" where
  "predict parse_float env store data =
     (case predict_body parse_float env store data of
        Inl e \<Rightarrow> Inl (reraise e)
      | Inr response \<Rightarrow> Inr response)"

text \<open>
  Artifacts for the examples below. The clustering model answers 0 or 1 by the
  second coordinate of its input, the one that holds \<^verbatim>\<open>time\<close>; the scaler halves
  each value. The clustered data has two rows, both of cluster 0; the original data
  has the same two rows on the original scale.
\<close>

definition example_store :: artifact_store where
  "example_store =
     \<lparr>kmeans_pkl = Some (\<lambda>xs. Inr (if 1 < length xs \<and> xs ! 1 < 1000 then 0 else 1)),
      scaler_pkl = Some (\<lambda>xs. Inr (map (\<lambda>x. x / 2) xs)),
      model_info_pkl =
        Some [(''features_to normalize'',
               [''mag'', ''depth'', ''latitude'', ''longitude'', ''sig'', ''cdi'', ''mmi''])],
      clustered_csv =
        Some \<lparr>df_columns = [''mag'', ''depth'', ''latitude'', ''longitude'', ''sig'', ''cdi'',
                             ''mmi'', ''cluster''],
              df_rows = [[PyFloat 3, PyFloat 5, PyFloat 0, PyFloat 0, PyFloat 200, PyFloat 2,
                          PyFloat 2, PyInt 0],
                         [PyFloat 0, PyFloat 1, PyFloat 5, PyFloat 10, PyFloat 90, PyFloat 1,
                          PyFloat 1, PyInt 0]]\<rparr>,
      dataset_csv =
        Some \<lparr>df_columns = [''mag'', ''time'', ''felt'', ''cdi'', ''mmi'', ''alert'', ''sig'',
                             ''tsunami'', ''magType'', ''longitude'', ''latitude'', ''depth''],
              df_rows = [[PyFloat 6, PyInt 111, PyInt 40, PyFloat 4, PyFloat 4, PyInt 2,
                          PyInt 400, PyInt 0, PyInt 24, PyFloat 0, PyFloat 0, PyFloat 10],
                         [PyFloat 1, PyInt 222, PyInt 7, PyFloat 2, PyFloat 2, PyInt 0,
                          PyInt 180, PyInt 1, PyInt 24, PyFloat 20, PyFloat 10, PyFloat 2]]\<rparr>\<rparr>"

text \<open>A store in which no artifact loads.\<close>

definition empty_store :: artifact_store where
  "empty_store = \<lparr>kmeans_pkl = None, scaler_pkl = None, model_info_pkl = None,
                   clustered_csv = None, dataset_csv = None\<rparr>"

section \<open>Properties of the chunk planner\<close>

lemma target_reached_iff: "target_reached n t = (\<not> below_target n t)"
  by (cases t) auto

text \<open>
  The log only grows, by at most one entry per day of the window, and \<open>best_end\<close>
  changes only at a queried \<open>mid\<close> whose count is within the cap.
\<close>

lemma find_optimal_loop_log:
  "\<exists>ys. snd (find_optimal_loop count start_date left right best_end queried) = queried @ ys \<and>
        length ys \<le> nat (right - left + 1) \<and>
        ((\<forall>m \<in> set ys. MAX_EVENTS < count start_date m) \<longrightarrow>
           fst (find_optimal_loop count start_date left right best_end queried) = best_end)"
proof (induction count start_date left right best_end queried rule: find_optimal_loop.induct)
  case (1 count start_date left right best_end queried)
  define mid where "mid = left + (right - left) div 2"
  define cnt where "cnt = count start_date mid"
  show ?case
  proof (cases "left \<le> right \<and> \<not> mid \<le> start_date")
    case False
    then show ?thesis
      by (subst (1 2) find_optimal_loop.simps) (auto simp: Let_def mid_def)
  next
    case go: True
    show ?thesis
    proof (cases "cnt \<le> MAX_EVENTS")
      case over: False
      from 1(2)[OF _ refl refl _ refl] go over
      obtain ys where ys:
        "snd (find_optimal_loop count start_date left (mid - 1) best_end (queried @ [mid]))
           = (queried @ [mid]) @ ys"
        "length ys \<le> nat (mid - 1 - left + 1)"
        "(\<forall>m \<in> set ys. MAX_EVENTS < count start_date m) \<longrightarrow>
           fst (find_optimal_loop count start_date left (mid - 1) best_end (queried @ [mid]))
             = best_end"
        unfolding mid_def cnt_def by blast
      have eq: "find_optimal_loop count start_date left right best_end queried =
            find_optimal_loop count start_date left (mid - 1) best_end (queried @ [mid])"
        using go over by (subst find_optimal_loop.simps) (simp add: Let_def mid_def cnt_def)
      have "mid \<le> right" using go unfolding mid_def by linarith
      then have len: "length (mid # ys) \<le> nat (right - left + 1)"
        using ys(2) go by simp linarith
      show ?thesis
        by (rule exI[of _ "mid # ys"]) (use ys eq len in simp)
    next
      case under: True
      show ?thesis
      proof (cases "real_of_int TARGET_EVENTS * 0.8 \<le> real_of_int cnt")
        case True
        have eq: "find_optimal_loop count start_date left right best_end queried
                    = (mid, queried @ [mid])"
          using go under True
          by (subst find_optimal_loop.simps) (simp add: Let_def mid_def cnt_def)
        show ?thesis
          by (rule exI[of _ "[mid]"]) (use eq under go in \<open>auto simp: cnt_def\<close>)
      next
        case False
        from 1(1)[OF _ refl refl _ refl] go under False
        obtain ys where ys:
          "snd (find_optimal_loop count start_date (mid + 1) right mid (queried @ [mid]))
             = (queried @ [mid]) @ ys"
          "length ys \<le> nat (right - (mid + 1) + 1)"
          unfolding mid_def cnt_def by blast
        have eq: "find_optimal_loop count start_date left right best_end queried =
            find_optimal_loop count start_date (mid + 1) right mid (queried @ [mid])"
          using go under False
          by (subst find_optimal_loop.simps) (simp add: Let_def mid_def cnt_def)
        have "left \<le> mid" using go unfolding mid_def by simp
        then have len: "length (mid # ys) \<le> nat (right - left + 1)"
          using ys(2) go by simp linarith
        show ?thesis
          by (rule exI[of _ "mid # ys"]) (use ys eq len under in \<open>simp add: cnt_def\<close>)
      qed
    qed
  qed
qed

text \<open>Every value \<open>best_end\<close> takes has a count within the cap.\<close>

lemma find_optimal_loop_count_le:
  "count start_date best_end \<le> MAX_EVENTS \<Longrightarrow>
   count start_date (fst (find_optimal_loop count start_date left right best_end queried))
     \<le> MAX_EVENTS"
proof (induction count start_date left right best_end queried rule: find_optimal_loop.induct)
  case (1 count start_date left right best_end queried)
  show ?case
    by (subst find_optimal_loop.simps) (use 1 in \<open>auto simp: Let_def\<close>)
qed

text \<open>
  The search on a count that does not decrease with the end: while an end \<open>e'\<close> at least
  two days after the start, with a count between 12000 and the cap, lies in
  \<open>[left, right]\<close>, the midpoint is after the start, and the window keeps \<open>e'\<close> until a
  midpoint with such a count is met.
\<close>

lemma find_optimal_loop_reaches_target:
  "\<forall>e e'. start_date \<le> e \<and> e \<le> e' \<longrightarrow> count start_date e \<le> count start_date e' \<Longrightarrow>
   12000 \<le> count start_date e' \<Longrightarrow> count start_date e' \<le> 20000 \<Longrightarrow>
   left \<le> e' \<Longrightarrow> e' \<le> right \<Longrightarrow> start_date + 2 \<le> e' \<Longrightarrow> start_date \<le> left \<Longrightarrow>
   12000 \<le> count start_date
     (fst (find_optimal_loop count start_date left right best_end queried))"
proof (induction count start_date left right best_end queried rule: find_optimal_loop.induct)
  case (1 count start_date left right best_end queried)
  define mid where "mid = left + (right - left) div 2"
  define cnt where "cnt = count start_date mid"
  note mono = 1(3) and good = 1(4,5) and rng = 1(6-9)
  have lr: "left \<le> right" using rng by linarith
  have mid_gt: "start_date < mid" using rng unfolding mid_def by linarith
  show ?case
  proof (cases "cnt \<le> MAX_EVENTS")
    case over: False
    have "e' < mid"
    proof (rule ccontr)
      assume "\<not> e' < mid"
      then have "start_date \<le> mid \<and> mid \<le> e'" using mid_gt by simp
      then have "count start_date mid \<le> count start_date e'"
        using mono by blast
      then show False using over good(2) by (simp add: cnt_def MAX_EVENTS_def)
    qed
    then have ih: "12000 \<le> count start_date
        (fst (find_optimal_loop count start_date left (mid - 1) best_end (queried @ [mid])))"
      using 1(2)[OF lr refl refl _ refl _ mono good] mid_gt over rng
      unfolding mid_def cnt_def by simp
    have eq: "find_optimal_loop count start_date left right best_end queried =
          find_optimal_loop count start_date left (mid - 1) best_end (queried @ [mid])"
      using lr mid_gt over
      by (subst find_optimal_loop.simps) (simp add: Let_def mid_def cnt_def)
    show ?thesis using ih eq by simp
  next
    case under: True
    show ?thesis
    proof (cases "real_of_int TARGET_EVENTS * 0.8 \<le> real_of_int cnt")
      case True
      have eq: "find_optimal_loop count start_date left right best_end queried
                  = (mid, queried @ [mid])"
        using lr mid_gt under True
        by (subst find_optimal_loop.simps) (simp add: Let_def mid_def cnt_def)
      have "12000 \<le> cnt" using True by (simp add: TARGET_EVENTS_def)
      then show ?thesis using eq by (simp add: cnt_def)
    next
      case False
      then have small: "cnt < 12000" by (simp add: TARGET_EVENTS_def)
      have "mid < e'"
      proof (rule ccontr)
        assume "\<not> mid < e'"
        then have "start_date \<le> e' \<and> e' \<le> mid" using rng by simp
        then have "count start_date e' \<le> count start_date mid"
          using mono by blast
        then show False using small good(1) by (simp add: cnt_def)
      qed
      then have ih: "12000 \<le> count start_date
        (fst (find_optimal_loop count start_date (mid + 1) right mid (queried @ [mid])))"
        using 1(1)[OF lr refl refl _ refl _ _ mono good] mid_gt under False rng
        unfolding mid_def cnt_def by simp
      have eq: "find_optimal_loop count start_date left right best_end queried =
          find_optimal_loop count start_date (mid + 1) right mid (queried @ [mid])"
        using lr mid_gt under False
        by (subst find_optimal_loop.simps) (simp add: Let_def mid_def cnt_def)
      show ?thesis using ih eq by simp
    qed
  qed
qed

lemma synthetic_count_mono:
  "0 \<le> K \<Longrightarrow>
   \<forall>e e'. s \<le> e \<and> e \<le> e' \<longrightarrow> synthetic_count K s e \<le> synthetic_count K s e'"
  by (simp add: synthetic_count_def mult_right_mono)

text \<open>
  Claim C1, as the code has it. For every synthetic count \<open>(end - start).days * K\<close> and
  every start and latest end, the end returned by \<open>find_optimal_end_date\<close> has a count
  of at most \<open>MAX_EVENTS\<close> (20000); and whenever some end at least two days after the
  start and not after the latest end has a count between 12000 (0.8 times
  \<open>TARGET_EVENTS\<close>) and 20000, the returned end's count is at least 12000. An end
  one day after the start is left out: the search stops at \<open>mid \<le> start\<close> before it
  queries a window of a single day.
\<close>

theorem C1_planner_within_cap_and_target:
  "synthetic_count K s (find_optimal_end_date (synthetic_count K) s m) \<le> MAX_EVENTS \<and>
   ((\<exists>e'. s + 2 \<le> e' \<and> e' \<le> m \<and> 12000 \<le> synthetic_count K s e' \<and>
          synthetic_count K s e' \<le> MAX_EVENTS) \<longrightarrow>
    12000 \<le> synthetic_count K s (find_optimal_end_date (synthetic_count K) s m))"
proof (intro conjI impI)
  show "synthetic_count K s (find_optimal_end_date (synthetic_count K) s m) \<le> MAX_EVENTS"
    unfolding find_optimal_end_date_def find_optimal_run_def
    by (rule find_optimal_loop_count_le) (simp add: synthetic_count_def MAX_EVENTS_def)
next
  assume "\<exists>e'. s + 2 \<le> e' \<and> e' \<le> m \<and> 12000 \<le> synthetic_count K s e' \<and>
            synthetic_count K s e' \<le> MAX_EVENTS"
  then obtain e' where e': "s + 2 \<le> e'" "e' \<le> m" "12000 \<le> synthetic_count K s e'"
    "synthetic_count K s e' \<le> 20000"
    by (auto simp: MAX_EVENTS_def)
  have K: "0 \<le> K"
  proof (rule ccontr)
    assume "\<not> 0 \<le> K"
    then have "(e' - s) * K \<le> 0" using e'(1) by (simp add: mult_le_0_iff)
    then show False using e'(3) by (simp add: synthetic_count_def)
  qed
  show "12000 \<le> synthetic_count K s (find_optimal_end_date (synthetic_count K) s m)"
    unfolding find_optimal_end_date_def find_optimal_run_def
    using find_optimal_loop_reaches_target[where count="synthetic_count K" and start_date=s
        and e'=e' and left=s and right=m and best_end=s and queried="[]",
        OF synthetic_count_mono[OF K] e'(3,4)] e'(1,2)
    by simp
qed

theorem C1_planner_witness:
  "(0::int) + 2 \<le> 4 \<and> (4::int) \<le> 10 \<and> 12000 \<le> synthetic_count 3000 0 4 \<and>
   synthetic_count 3000 0 4 \<le> MAX_EVENTS \<and>
   synthetic_count 3000 0 (find_optimal_end_date (synthetic_count 3000) 0 10) \<le> MAX_EVENTS \<and>
   12000 \<le> synthetic_count 3000 0 (find_optimal_end_date (synthetic_count 3000) 0 10)"
proof -
  have h: "\<exists>e'. (0::int) + 2 \<le> e' \<and> e' \<le> 10 \<and> 12000 \<le> synthetic_count 3000 0 e' \<and>
            synthetic_count 3000 0 e' \<le> MAX_EVENTS"
    by (rule exI[of _ 4]) (simp add: synthetic_count_def MAX_EVENTS_def)
  from C1_planner_within_cap_and_target[of 3000 0 10] h show ?thesis
    by (simp add: synthetic_count_def[of 3000 0 4] MAX_EVENTS_def)
qed

text \<open>
  The claim as the spec words it (any end after the start counts) fails: with 15000
  events a day and a window of one day, the end one day after the start has a count of
  15000, yet the planner returns the start, whose count is 0.
\<close>

theorem C1_single_day_counterexample:
  "(0::int) \<le> 1 \<and> (0::int) < 1 \<and> 12000 \<le> synthetic_count 15000 0 1 \<and>
   synthetic_count 15000 0 1 \<le> MAX_EVENTS \<and>
   find_optimal_end_date (synthetic_count 15000) 0 1 = 0 \<and>
   synthetic_count 15000 0 (find_optimal_end_date (synthetic_count 15000) 0 1) < 12000"
  by (simp add: find_optimal_end_date_def find_optimal_run_def find_optimal_loop.simps
      synthetic_count_def MAX_EVENTS_def)

text \<open>
  Claim C2. If every end whose count the planner requests exceeds \<open>MAX_EVENTS\<close> (so also
  when every end after the start does), \<open>find_optimal_end_date\<close> returns the start
  itself, after at most one request per day of the window: it does not loop for ever.
\<close>

theorem C2_planner_degenerate_returns_start:
  "(\<forall>mid \<in> set (queried_ends count start_date max_end_date).
      MAX_EVENTS < count start_date mid) \<Longrightarrow>
   find_optimal_end_date count start_date max_end_date = start_date \<and>
   length (queried_ends count start_date max_end_date) \<le> nat (max_end_date - start_date + 1)"
  using find_optimal_loop_log[of count start_date start_date max_end_date start_date "[]"]
  by (auto simp: find_optimal_end_date_def queried_ends_def find_optimal_run_def)

theorem C2_planner_degenerate_witness:
  "queried_ends (synthetic_count 30000) 0 10 = [5, 2] \<and>
   MAX_EVENTS < synthetic_count 30000 0 5 \<and> MAX_EVENTS < synthetic_count 30000 0 2 \<and>
   find_optimal_end_date (synthetic_count 30000) 0 10 = 0 \<and>
   length (queried_ends (synthetic_count 30000) 0 10) \<le> nat (10 - 0 + 1)"
proof -
  have q: "queried_ends (synthetic_count 30000) 0 10 = [5, 2]"
    by (simp add: queried_ends_def find_optimal_run_def find_optimal_loop.simps
        synthetic_count_def MAX_EVENTS_def)
  have h: "\<forall>mid \<in> set (queried_ends (synthetic_count 30000) 0 10).
             MAX_EVENTS < synthetic_count 30000 0 mid"
    by (simp add: q synthetic_count_def MAX_EVENTS_def)
  from C2_planner_degenerate_returns_start[OF h] q show ?thesis
    by (simp add: synthetic_count_def MAX_EVENTS_def)
qed

section \<open>Properties of the acquisition driver\<close>

lemma driver_step_current:
  "current_date (driver_step count final_date st) =
     find_optimal_end_date count (current_date st) final_date + 1"
  by (simp add: driver_step_def Let_def)

lemma driver_step_chunk_number:
  "chunk_number (driver_step count final_date st) = chunk_number st + 1"
  by (simp add: driver_step_def Let_def)

lemma download_loop_exit:
  "final_date \<le> current_date (download_loop count final_date samples st) \<or>
   target_reached (total_samples_collected (download_loop count final_date samples st)) samples"
proof (induction count final_date samples st rule: download_loop.induct)
  case (1 count final_date samples st)
  show ?case
    by (subst (1 2) download_loop.simps) (use 1 in \<open>auto simp: Let_def target_reached_iff\<close>)
qed

lemma download_loop_chunks:
  "chunk_number st \<le> chunk_number (download_loop count final_date samples st) \<and>
   chunk_number (download_loop count final_date samples st)
     \<le> chunk_number st + nat (final_date - current_date st)"
proof (induction count final_date samples st rule: download_loop.induct)
  case (1 count final_date samples st)
  let ?st' = "driver_step count final_date st"
  show ?case
  proof (cases "current_date st < final_date \<and> below_target (total_samples_collected st) samples")
    case False
    then show ?thesis by (subst (1 2) download_loop.simps) auto
  next
    case go: True
    have adv: "current_date st < current_date ?st'"
      using find_optimal_end_date_ge_start[of "current_date st" count final_date]
      by (simp add: driver_step_current)
    show ?thesis
    proof (cases "target_reached (total_samples_collected ?st') samples")
      case True
      then have "download_loop count final_date samples st = ?st'"
        using go by (subst download_loop.simps) (simp add: Let_def)
      then show ?thesis using go by (auto simp: driver_step_chunk_number)
    next
      case False
      then have eq: "download_loop count final_date samples st
                       = download_loop count final_date samples ?st'"
        using go by (subst download_loop.simps) (simp add: Let_def)
      from 1[OF go refl False] adv go show ?thesis
        unfolding eq by (simp add: driver_step_chunk_number) linarith
    qed
  qed
qed

lemma download_loop_fixed:
  "(download_loop count final_date samples st = st) =
   (final_date \<le> current_date st \<or> target_reached (total_samples_collected st) samples)"
proof (cases "current_date st < final_date \<and> below_target (total_samples_collected st) samples")
  case False
  then show ?thesis by (subst download_loop.simps) (auto simp: target_reached_iff)
next
  case go: True
  let ?st' = "driver_step count final_date st"
  have "chunk_number ?st' \<le> chunk_number (download_loop count final_date samples st)"
  proof (cases "target_reached (total_samples_collected ?st') samples")
    case True
    then show ?thesis using go by (subst download_loop.simps) (simp add: Let_def)
  next
    case False
    then have "download_loop count final_date samples st
                 = download_loop count final_date samples ?st'"
      using go by (subst download_loop.simps) (simp add: Let_def)
    then show ?thesis using download_loop_chunks[of ?st' count final_date samples] by simp
  qed
  then have "download_loop count final_date samples st \<noteq> st"
    by (auto simp: driver_step_chunk_number)
  then show ?thesis using go by (auto simp: target_reached_iff)
qed

text \<open>
  The run of \<^verbatim>\<open>main\<close>, \<^verbatim>\<open>download_data_in_chunks(1900, 2025)\<close>, is the loop from
  1900-01-01 (day 693596) to 2025-12-31 (day 739616) with no sample target.
\<close>

lemma download_data_in_chunks_main:
  "download_data_in_chunks count 1900 2025 =
     Inr (download_loop count 739616 None
            \<lparr>current_date = 693596, chunk_number = 1, total_samples_collected = 0,
             downloaded = []\<rparr>)"
  by (simp add: download_data_in_chunks_def datetime_jan_1_def datetime_dec_31_def
      days_before_year_def is_leap_def SAMPLES_def)

text \<open>
  Claim C3. For every count function, final date, sample target and loop state:
  \<open>find_optimal_end_date\<close> returns an end that is not before \<open>current_date\<close>; one pass of
  the loop body sets \<open>current_date\<close> to that end plus one day, a strict advance; the
  loop returns (\<open>download_loop\<close> is a total function, its termination proved from that
  advance) in a state where \<open>current_date >= final_date\<close> or the collected total has
  reached the target; it makes no pass at all exactly when that exit condition holds
  at its start; and it makes at most one pass per day between \<open>current_date\<close> and
  \<open>final_date\<close>.
\<close>

theorem C3_driver_terminates:
  "current_date st \<le> find_optimal_end_date count (current_date st) final_date \<and>
   current_date (driver_step count final_date st) =
     find_optimal_end_date count (current_date st) final_date + 1 \<and>
   current_date st < current_date (driver_step count final_date st) \<and>
   (final_date \<le> current_date (download_loop count final_date samples st) \<or>
    target_reached (total_samples_collected (download_loop count final_date samples st))
      samples) \<and>
   (download_loop count final_date samples st = st) =
     (final_date \<le> current_date st \<or> target_reached (total_samples_collected st) samples) \<and>
   chunk_number (download_loop count final_date samples st)
     \<le> chunk_number st + nat (final_date - current_date st)"
  using find_optimal_end_date_ge_start[of "current_date st" count final_date]
    download_loop_exit[of final_date count samples st]
    download_loop_fixed[of count final_date samples st]
    download_loop_chunks[of st count final_date samples]
  by (simp add: driver_step_current)

section \<open>Properties of the event counter\<close>

text \<open>
  Python's \<^verbatim>\<open>int\<close> reads the decimal notation of an integer of at most 4300 digits
  back: the bare count of the endpoint is parsed to the number it denotes.
\<close>


lemma of_char_digit_char:
  assumes "d < 10" shows "(of_char (digit_char d) :: nat) = 48 + d"
proof -
  from assms have "d \<in> {0, 1, 2, 3, 4, 5, 6, 7, 8, 9}" by auto
  then show ?thesis by (auto simp: digit_char_def)
qed

lemma digit_val_digit_char: "d < 10 \<Longrightarrow> digit_val (digit_char d) = Some d"
  by (simp add: digit_val_def of_char_digit_char)

lemma digit_char_not_space: "d < 10 \<Longrightarrow> \<not> is_space (digit_char d)"
  by (auto simp: is_space_def of_char_digit_char)

lemma digit_char_not_underscore:
  assumes "d < 10" shows "digit_char d \<noteq> CHR ''_''"
proof
  assume "digit_char d = CHR ''_''"
  then have "(of_char (digit_char d) :: nat) = of_char (CHR ''_'')" by simp
  then show False using assms by (simp add: of_char_digit_char)
qed

lemma digit_char_not_sign:
  assumes "d < 10" shows "digit_char d \<noteq> CHR ''-''" "digit_char d \<noteq> CHR ''+''"
proof -
  have "(of_char (digit_char d) :: nat) \<noteq> of_char (CHR ''-'')"
       "(of_char (digit_char d) :: nat) \<noteq> of_char (CHR ''+'')"
    using assms by (simp_all add: of_char_digit_char)
  then show "digit_char d \<noteq> CHR ''-''" "digit_char d \<noteq> CHR ''+''" by auto
qed

lemma digit_char_mod: "\<exists>d<10. digit_char (n mod 10) = digit_char d"
  by (rule exI[of _ "n mod 10"]) simp

lemma dropWhile_hd: "xs \<noteq> [] \<Longrightarrow> \<not> P (hd xs) \<Longrightarrow> dropWhile P xs = xs"
  by (cases xs) auto


lemma py_digits_digits:
  "is_digits ds \<Longrightarrow>
   py_digits ds acc = Some (foldl (\<lambda>a c. a * 10 + (of_char c - 48)) acc ds)"
proof (induction ds acc rule: py_digits.induct)
  case (1 acc)
  then show ?case by simp
next
  case (2 c acc)
  then show ?case by (auto simp: is_digits_def digit_val_digit_char of_char_digit_char)
next
  case (3 c d cs acc)
  from 3(3) obtain x where x: "x < 10" "c = digit_char x" by (auto simp: is_digits_def)
  have tl: "is_digits (d # cs)" using 3(3) by (simp add: is_digits_def)
  show ?case
    using 3(2)[OF _ _ tl] x
    by (simp add: digit_char_not_underscore digit_val_digit_char of_char_digit_char)
qed

lemma decimal_nat_digits: "is_digits (decimal_nat n)"
proof (induction n rule: decimal_nat.induct)
  case (1 n)
  show ?case
    by (subst decimal_nat.simps) (use 1 digit_char_mod in \<open>auto simp: is_digits_def\<close>)
qed

lemma decimal_nat_value:
  "foldl (\<lambda>a c. a * 10 + (of_char c - 48)) acc (decimal_nat n) = acc * 10 ^ length (decimal_nat n) + n"
proof (induction n arbitrary: acc rule: decimal_nat.induct)
  case (1 n)
  show ?case
  proof (cases "n < 10")
    case True
    then show ?thesis by (subst (1 2) decimal_nat.simps) (simp add: of_char_digit_char)
  next
    case False
    then show ?thesis
      by (subst (1 2) decimal_nat.simps) (simp add: 1 of_char_digit_char algebra_simps)
  qed
qed

lemma decimal_nat_shape: "\<exists>d cs. d < 10 \<and> decimal_nat n = digit_char d # cs"
proof (induction n rule: decimal_nat.induct)
  case (1 n)
  show ?case
  proof (cases "n < 10")
    case True
    then show ?thesis by (subst decimal_nat.simps) auto
  next
    case False
    with 1 obtain d cs where "d < 10" "decimal_nat (n div 10) = digit_char d # cs" by blast
    then show ?thesis using False by (subst decimal_nat.simps) auto
  qed
qed

lemma py_nat_decimal_nat: "py_nat (decimal_nat n) = Some n"
proof -
  obtain d cs where dc: "d < 10" "decimal_nat n = digit_char d # cs"
    using decimal_nat_shape by blast
  have "is_digits cs" using decimal_nat_digits[of n] dc by (simp add: is_digits_def)
  then have "py_digits cs d = Some (foldl (\<lambda>a c. a * 10 + (of_char c - 48)) d cs)"
    by (rule py_digits_digits)
  moreover have "foldl (\<lambda>a c. a * 10 + (of_char c - 48)) 0 (decimal_nat n) = n"
    using decimal_nat_value[of 0 n] by simp
  then have "foldl (\<lambda>a c. a * 10 + (of_char c - 48)) d cs = n"
    using dc by (simp add: of_char_digit_char)
  ultimately show ?thesis using dc by (simp add: digit_val_digit_char)
qed

lemma strip_no_space:
  assumes "s \<noteq> []" "\<not> is_space (hd s)" "\<not> is_space (last s)"
  shows "strip s = s"
proof -
  have 1: "dropWhile is_space s = s" using assms by (simp add: dropWhile_hd)
  have "rev s \<noteq> []" "hd (rev s) = last s" using assms by (simp_all add: hd_rev)
  then have 2: "dropWhile is_space (rev s) = rev s" using assms by (simp add: dropWhile_hd)
  show ?thesis by (simp add: strip_def 1 2)
qed

lemma decimal_nat_last: "\<exists>d < 10. last (decimal_nat n) = digit_char d"
  by (subst decimal_nat.simps) (use digit_char_mod in auto)

lemma strip_decimal: "strip (decimal i) = decimal i"
proof -
  obtain d cs where dc: "d < 10" "decimal_nat (nat \<bar>i\<bar>) = digit_char d # cs"
    using decimal_nat_shape by blast
  obtain e where e: "e < 10" "last (decimal_nat (nat \<bar>i\<bar>)) = digit_char e"
    using decimal_nat_last by blast
  have minus: "\<not> is_space CHR ''-''" by (simp add: is_space_def)
  show ?thesis
  proof (cases "i < 0")
    case True
    then have "decimal i = CHR ''-'' # decimal_nat (nat \<bar>i\<bar>)" by (simp add: decimal_def)
    then show ?thesis using dc e minus
      by (intro strip_no_space) (auto simp: digit_char_not_space)
  next
    case False
    then have "decimal i = decimal_nat (nat \<bar>i\<bar>)" by (simp add: decimal_def)
    then show ?thesis using dc e
      by (intro strip_no_space) (auto simp: digit_char_not_space)
  qed
qed

lemma filter_digits: "is_digits ds \<Longrightarrow> filter (\<lambda>x. digit_val x \<noteq> None) ds = ds"
  by (induction ds) (auto simp: is_digits_def digit_val_digit_char)

lemma decimal_digit_count:
  assumes "digit_count i \<le> int_max_str_digits"
  shows "\<not> int_max_str_digits < length (filter (\<lambda>x. digit_val x \<noteq> None) (decimal i))"
proof -
  have minus: "digit_val CHR ''-'' = None" by (simp add: digit_val_def)
  have "filter (\<lambda>x. digit_val x \<noteq> None) (decimal i) = decimal_nat (nat \<bar>i\<bar>)"
    using filter_digits[OF decimal_nat_digits, of "nat \<bar>i\<bar>"] minus
    by (cases "i < 0") (simp_all add: decimal_def)
  then show ?thesis using assms by (simp add: digit_count_def)
qed

lemma py_int_decimal:
  assumes "digit_count i \<le> int_max_str_digits"
  shows "py_int (decimal i) = Some i"
proof -
  obtain c cs where c: "decimal i = c # cs"
    using decimal_nat_shape[of "nat (- i)"] decimal_nat_shape[of "nat i"]
    by (cases "i < 0") (auto simp: decimal_def)
  have lim: "\<not> int_max_str_digits < length (filter (\<lambda>x. digit_val x \<noteq> None) (c # cs))"
    using decimal_digit_count[OF assms] unfolding c .
  have st: "strip (c # cs) = c # cs" using strip_decimal[of i] unfolding c .
  have unfold: "py_int (decimal i) =
     (if c = CHR ''-'' then map_option (\<lambda>n. - int n) (py_nat cs)
      else if c = CHR ''+'' then map_option int (py_nat cs)
      else map_option int (py_nat (c # cs)))"
    unfolding py_int_def c st list.case if_not_P[OF lim] ..
  show ?thesis
  proof (cases "i < 0")
    case True
    then have "c = CHR ''-''" "cs = decimal_nat (nat (- i))" using c by (simp_all add: decimal_def)
    then show ?thesis using True unfolding unfold by (simp add: py_nat_decimal_nat)
  next
    case False
    obtain d ds where dc: "d < 10" "decimal_nat (nat i) = digit_char d # ds"
      using decimal_nat_shape by blast
    then have cc: "c = digit_char d" "cs = ds" using c False by (simp_all add: decimal_def)
    have "py_nat (c # cs) = Some (nat i)"
      using py_nat_decimal_nat[of "nat i"] dc cc by simp
    then show ?thesis using False digit_char_not_sign[OF dc(1)] cc(1) unfolding unfold
      by (simp del: py_nat.simps)
  qed
qed

lemma get_event_count_other:
  assumes "status resp < 400" "py_int (strip (body resp)) = None"
    "\<not> (\<exists>kvs c. json_loads (body resp) = Inr (PyDict kvs) \<and> map_of kvs ''count'' = Some c)"
  shows "\<exists>e. get_event_count json_loads resp = Inl e"
proof (cases "json_loads (body resp)")
  case (Inl e)
  then show ?thesis using assms by (simp add: get_event_count_def)
next
  case Some: (Inr j)
  show ?thesis
  proof (cases j)
    case (PyDict kvs)
    then have "map_of kvs ''count'' = None" using assms(3) Some by (cases "map_of kvs ''count''") auto
    then have "''count'' \<notin> set (map fst kvs)" by (simp add: map_of_eq_None_iff)
    then show ?thesis using assms Some PyDict by (simp add: get_event_count_def)
  next
    case (PyList xs)
    then show ?thesis using assms Some by (cases "PyStr ''count'' \<in> set xs") (simp_all add: get_event_count_def)
  next
    case (PyStr s)
    then show ?thesis using assms Some by (cases "is_substring ''count'' s") (simp_all add: get_event_count_def)
  qed (use assms Some in \<open>simp_all add: get_event_count_def\<close>)
qed

text \<open>
  Claim C8, as the code has it. \<^verbatim>\<open>raise_for_status\<close> stands before the body is read:
  on a status of 400 or more \<open>get_event_count\<close> raises \<^verbatim>\<open>ClientResponseError\<close>
  whatever the body holds. On a status below 400 it returns the integer when the body
  is the decimal notation of an integer of at most 4300 digits (more generally, any
  text \<^verbatim>\<open>int\<close> reads after \<^verbatim>\<open>strip\<close>, and then the integer read); when the body is
  not such a text and is a JSON object with a \<^verbatim>\<open>count\<close> field it returns the value
  of that field as its result; and for every other body (one \<^verbatim>\<open>json.loads\<close> rejects,
  an object without \<^verbatim>\<open>count\<close>, or JSON that is not an object) it raises an error.
\<close>

theorem C8_get_event_count_bodies:
  "(400 \<le> status resp \<longrightarrow>
      get_event_count json_loads resp = Inl (ClientResponseError (status resp))) \<and>
   (status resp < 400 \<longrightarrow>
      (body resp = decimal n \<and> digit_count n \<le> int_max_str_digits \<longrightarrow>
         get_event_count json_loads resp = Inr (PyInt n)) \<and>
      (py_int (strip (body resp)) = Some n \<longrightarrow>
         get_event_count json_loads resp = Inr (PyInt n)) \<and>
      (py_int (strip (body resp)) = None \<and> json_loads (body resp) = Inr (PyDict kvs) \<and>
       map_of kvs ''count'' = Some c \<longrightarrow>
         get_event_count json_loads resp = Inr c) \<and>
      (py_int (strip (body resp)) = None \<and>
       \<not> (\<exists>kvs c. json_loads (body resp) = Inr (PyDict kvs) \<and> map_of kvs ''count'' = Some c) \<longrightarrow>
         (\<exists>e. get_event_count json_loads resp = Inl e)))"
proof (intro conjI impI)
  assume "400 \<le> status resp"
  then show "get_event_count json_loads resp = Inl (ClientResponseError (status resp))"
    by (simp add: get_event_count_def)
next
  assume ok: "status resp < 400"
    and "body resp = decimal n \<and> digit_count n \<le> int_max_str_digits"
  then show "get_event_count json_loads resp = Inr (PyInt n)"
    by (simp add: get_event_count_def strip_decimal py_int_decimal)
next
  assume ok: "status resp < 400" and "py_int (strip (body resp)) = Some n"
  then show "get_event_count json_loads resp = Inr (PyInt n)"
    by (simp add: get_event_count_def)
next
  assume ok: "status resp < 400"
    and a: "py_int (strip (body resp)) = None \<and> json_loads (body resp) = Inr (PyDict kvs) \<and>
          map_of kvs ''count'' = Some c"
  then have "''count'' \<in> set (map fst kvs)"
    by (metis map_of_eq_None_iff option.distinct(1) set_map)
  then show "get_event_count json_loads resp = Inr c"
    using ok a by (simp add: get_event_count_def)
next
  assume ok: "status resp < 400"
    and "py_int (strip (body resp)) = None \<and>
          \<not> (\<exists>kvs c. json_loads (body resp) = Inr (PyDict kvs) \<and> map_of kvs ''count'' = Some c)"
  then show "\<exists>e. get_event_count json_loads resp = Inl e"
    using get_event_count_other[OF ok] by blast
qed

theorem C8_get_event_count_witness:
  "status \<lparr>status = 200, body = decimal 14321\<rparr> < 400 \<and>
   decimal 14321 = ''14321'' \<and>
   get_event_count (\<lambda>s. Inl JSONDecodeError) \<lparr>status = 200, body = decimal 14321\<rparr>
     = Inr (PyInt 14321) \<and>
   py_int (strip '' 14_321 '') = Some 14321 \<and>
   get_event_count (\<lambda>s. Inl JSONDecodeError) \<lparr>status = 200, body = '' 14_321 ''\<rparr>
     = Inr (PyInt 14321) \<and>
   py_int (strip example_error_body) = None \<and>
   get_event_count (\<lambda>s. Inr (PyDict [(''count'', PyInt 25000)]))
     \<lparr>status = 200, body = example_error_body\<rparr> = Inr (PyInt 25000) \<and>
   py_int (strip ''Bad Request'') = None \<and>
   (\<exists>e. get_event_count (\<lambda>s. Inl JSONDecodeError) \<lparr>status = 200, body = ''Bad Request''\<rparr>
         = Inl e) \<and>
   (400 :: nat) \<le> status \<lparr>status = 429, body = ''Too Many Requests''\<rparr> \<and>
   get_event_count (\<lambda>s. Inl JSONDecodeError) \<lparr>status = 429, body = ''Too Many Requests''\<rparr>
     = Inl (ClientResponseError 429)"
proof -
  have ok: "\<And>b. status \<lparr>status = 200, body = b\<rparr> < 400" by simp
  have d: "decimal 14321 = ''14321''"
    by (simp add: decimal_def decimal_nat.simps digit_char_def)
  have small: "digit_count 14321 \<le> int_max_str_digits"
    by (simp add: digit_count_def decimal_nat.simps int_max_str_digits_def)
  have i: "py_int (strip '' 14_321 '') = Some 14321"
    by (simp add: py_int_def strip_def is_space_def digit_val_def int_max_str_digits_def)
  have n1: "py_int (strip example_error_body) = None"
    by (simp add: example_error_body_def py_int_def strip_def is_space_def digit_val_def
        int_max_str_digits_def)
  have n2: "py_int (strip ''Bad Request'') = None"
    by (simp add: py_int_def strip_def is_space_def digit_val_def int_max_str_digits_def)
  have 1: "get_event_count (\<lambda>s. Inl JSONDecodeError) \<lparr>status = 200, body = decimal 14321\<rparr>
             = Inr (PyInt 14321)"
    using C8_get_event_count_bodies[of "\<lparr>status = 200, body = decimal 14321\<rparr>"
        "\<lambda>s. Inl JSONDecodeError" 14321] small
    by simp
  have 2: "get_event_count (\<lambda>s. Inl JSONDecodeError) \<lparr>status = 200, body = '' 14_321 ''\<rparr>
             = Inr (PyInt 14321)"
    using C8_get_event_count_bodies[of "\<lparr>status = 200, body = '' 14_321 ''\<rparr>"
        "\<lambda>s. Inl JSONDecodeError" 14321] i
    by simp
  have 3: "get_event_count (\<lambda>s. Inr (PyDict [(''count'', PyInt 25000)]))
     \<lparr>status = 200, body = example_error_body\<rparr> = Inr (PyInt 25000)"
    using C8_get_event_count_bodies[of "\<lparr>status = 200, body = example_error_body\<rparr>"
        "\<lambda>s. Inr (PyDict [(''count'', PyInt 25000)])" _ "[(''count'', PyInt 25000)]"
        "PyInt 25000"]
      n1 by simp
  have 4: "\<exists>e. get_event_count (\<lambda>s. Inl JSONDecodeError) \<lparr>status = 200, body = ''Bad Request''\<rparr>
             = Inl e"
    using C8_get_event_count_bodies[of "\<lparr>status = 200, body = ''Bad Request''\<rparr>"
        "\<lambda>s. Inl JSONDecodeError"] n2
    by simp
  have 5: "get_event_count (\<lambda>s. Inl JSONDecodeError)
             \<lparr>status = 429, body = ''Too Many Requests''\<rparr> = Inl (ClientResponseError 429)"
    using C8_get_event_count_bodies[of "\<lparr>status = 429, body = ''Too Many Requests''\<rparr>"
        "\<lambda>s. Inl JSONDecodeError"]
    by simp
  show ?thesis using ok d i n1 n2 1 2 3 4 5 by simp
qed

text \<open>
  The claim as the spec words it, for every response body, fails on a status of 400 or
  more: a body that is a JSON object with a \<^verbatim>\<open>count\<close> field, and a body that is a
  bare integer, both end in \<^verbatim>\<open>ClientResponseError\<close>, and no count is returned.
\<close>

theorem C8_error_status_counterexample:
  "py_int (strip example_error_body) = None \<and>
   get_event_count (\<lambda>s. Inr (PyDict [(''count'', PyInt 25000)]))
     \<lparr>status = 400, body = example_error_body\<rparr> = Inl (ClientResponseError 400) \<and>
   decimal 14321 = ''14321'' \<and>
   get_event_count (\<lambda>s. Inr (PyInt 14321)) \<lparr>status = 503, body = decimal 14321\<rparr>
     = Inl (ClientResponseError 503)"
proof -
  have d: "decimal 14321 = ''14321''"
    by (simp add: decimal_def decimal_nat.simps digit_char_def)
  have n1: "py_int (strip example_error_body) = None"
    by (simp add: example_error_body_def py_int_def strip_def is_space_def digit_val_def
        int_max_str_digits_def)
  show ?thesis using d n1 by (simp add: get_event_count_def)
qed

section \<open>Properties of the file joiner\<close>

text \<open>
  A loop of \<open>parse_feature\<close> over the items of a dictionary (whose keys are distinct)
  writes the items whose key is not in \<open>avoid_keys\<close> over what is there; a key already
  there keeps its place and a new key goes to the end.
\<close>

lemma copy_items_map_of:
  "distinct (map fst items) \<Longrightarrow>
   map_of (copy_items items parsed) k =
     (if k \<notin> set avoid_keys then (map_of parsed ++ map_of items) k else map_of parsed k)"
proof (induction items arbitrary: parsed)
  case Nil
  then show ?case by simp
next
  case (Cons item rest)
  obtain a b where item: "item = (a, b)" by (cases item)
  have d: "distinct (map fst rest)" and a: "a \<notin> fst ` set rest"
    using Cons.prems item by auto
  have rest_a: "map_of rest a = None" using a by (simp add: map_of_eq_None_iff)
  show ?case
    using Cons.IH[OF d] rest_a
    by (auto simp: item update_conv' map_add_def split: option.splits)
qed

lemma copy_items_keys:
  "distinct (map fst items) \<Longrightarrow>
   map fst (copy_items items parsed) =
     map fst parsed @
     filter (\<lambda>k. k \<notin> set avoid_keys \<and> k \<notin> set (map fst parsed)) (map fst items)"
proof (induction items arbitrary: parsed)
  case Nil
  then show ?case by simp
next
  case (Cons item rest)
  obtain a b where item: "item = (a, b)" by (cases item)
  have d: "distinct (map fst rest)" and a: "a \<notin> set (map fst rest)"
    using Cons.prems item by auto
  have f: "filter (\<lambda>k. k \<notin> set avoid_keys \<and> k \<notin> set (map fst parsed @ [a])) (map fst rest)
         = filter (\<lambda>k. k \<notin> set avoid_keys \<and> k \<notin> set (map fst parsed)) (map fst rest)"
    using a by (intro filter_cong) auto
  show ?case
  proof (cases "a \<notin> set avoid_keys \<and> a \<notin> set (map fst parsed)")
    case True
    then have "map fst (AList.update a b parsed) = map fst parsed @ [a]"
      by (simp add: update_keys)
    then show ?thesis
      using Cons.IH[OF d, of "AList.update a b parsed"] f True by (simp add: item)
  next
    case False
    show ?thesis
    proof (cases "a \<in> set avoid_keys")
      case True
      then show ?thesis using Cons.IH[OF d, of parsed] by (simp add: item)
    next
      case notavoid: False
      then have "a \<in> set (map fst parsed)" using False by simp
      then have "map fst (AList.update a b parsed) = map fst parsed"
        by (simp add: update_keys)
      then show ?thesis
        using Cons.IH[OF d, of "AList.update a b parsed"] notavoid \<open>a \<in> set (map fst parsed)\<close>
        by (simp add: item)
    qed
  qed
qed

lemma copy_section_dict:
  "section_items (map_of feature name) = Some items \<Longrightarrow>
   copy_section name (PyDict feature) parsed = Inr (copy_items items parsed)"
proof (cases "map_of feature name")
  case None
  then have "name \<notin> set (map fst feature)" by (simp add: map_of_eq_None_iff)
  moreover assume "section_items (map_of feature name) = Some items"
  ultimately show ?thesis using None by (simp add: copy_section_def)
next
  case (Some v)
  then have "name \<in> set (map fst feature)"
    by (metis map_of_eq_None_iff option.distinct(1) set_map)
  moreover assume "section_items (map_of feature name) = Some items"
  ultimately show ?thesis using Some by (cases v) (simp_all add: copy_section_def)
qed

text \<open>
  Claim C9, as the code has it. For every feature record whose \<^verbatim>\<open>properties\<close> and
  \<^verbatim>\<open>geometry\<close> entries, where present, are dictionaries (\<open>section_items\<close> is
  \<open>Some\<close>; the keys of a dictionary are distinct), \<open>parse_feature\<close> returns
  the mapping that has no key of the denylist \<open>avoid_keys\<close> and maps every other key to
  its value in \<^verbatim>\<open>geometry\<close> if it has one and otherwise to its value in
  \<^verbatim>\<open>properties\<close>: the geometry entries are written after the properties entries, so
  the geometry value wins on a collision. The keys stand in the order of the writes:
  those of \<^verbatim>\<open>properties\<close> first, then the new ones of \<^verbatim>\<open>geometry\<close>.
\<close>

theorem C9_parse_feature_flattens:
  assumes "section_items (map_of feature ''properties'') = Some props"
    and "section_items (map_of feature ''geometry'') = Some geo"
    and "distinct (map fst props)" and "distinct (map fst geo)"
  shows "\<exists>parsed. parse_feature (PyDict feature) = Inr parsed \<and>
           map_of parsed =
             (\<lambda>k. if k \<in> set avoid_keys then None else (map_of props ++ map_of geo) k) \<and>
           map fst parsed =
             filter (\<lambda>k. k \<notin> set avoid_keys) (map fst props) @
             filter (\<lambda>k. k \<notin> set avoid_keys \<and> k \<notin> set (map fst props)) (map fst geo)"
proof -
  let ?p1 = "copy_items props []"
  let ?p2 = "copy_items geo ?p1"
  have pf: "parse_feature (PyDict feature) = Inr ?p2"
    by (simp add: parse_feature_def copy_section_dict[OF assms(1)] copy_section_dict[OF assms(2)])
  have m1: "\<And>k. map_of ?p1 k = (if k \<notin> set avoid_keys then map_of props k else None)"
    by (simp add: copy_items_map_of[OF assms(3)])
  have m2: "map_of ?p2 = (\<lambda>k. if k \<in> set avoid_keys then None else (map_of props ++ map_of geo) k)"
    by (rule ext) (auto simp: copy_items_map_of[OF assms(4)] m1 map_add_def split: option.splits)
  have k1: "map fst ?p1 = filter (\<lambda>k. k \<notin> set avoid_keys) (map fst props)"
    by (simp add: copy_items_keys[OF assms(3)])
  have k2: "map fst ?p2 = filter (\<lambda>k. k \<notin> set avoid_keys) (map fst props) @
             filter (\<lambda>k. k \<notin> set avoid_keys \<and> k \<notin> set (map fst props)) (map fst geo)"
    unfolding copy_items_keys[OF assms(4)] k1
    by (auto intro: filter_cong)
  show ?thesis using pf m2 k2 by blast
qed

text \<open>
  The record of the spec's example: \<^verbatim>\<open>id\<close> and \<^verbatim>\<open>type\<close> are excluded, \<^verbatim>\<open>mag\<close>,
  \<^verbatim>\<open>place\<close> and \<^verbatim>\<open>coordinates\<close> are included.
\<close>

theorem C9_parse_feature_witness:
  "parse_feature example_feature =
     Inr [(''mag'', PyFloat 5.1), (''place'', PyStr ''Tokyo''),
          (''coordinates'', PyList [PyInt 1, PyInt 2])] \<and>
   (\<exists>parsed. parse_feature example_feature = Inr parsed \<and>
      map_of parsed ''id'' = None \<and> map_of parsed ''type'' = None \<and>
      map_of parsed ''mag'' = Some (PyFloat 5.1) \<and>
      map_of parsed ''place'' = Some (PyStr ''Tokyo'') \<and>
      map_of parsed ''coordinates'' = Some (PyList [PyInt 1, PyInt 2]) \<and>
      map fst parsed = [''mag'', ''place'', ''coordinates''])"
proof -
  let ?props = "[(''mag'', PyFloat 5.1), (''id'', PyStr ''xyz''), (''place'', PyStr ''Tokyo'')]"
  let ?geo = "[(''type'', PyStr ''Point''), (''coordinates'', PyList [PyInt 1, PyInt 2])]"
  let ?feature = "[(''properties'', PyDict ?props), (''geometry'', PyDict ?geo)]"
  have h1: "section_items (map_of ?feature ''properties'') = Some ?props" by simp
  have h2: "section_items (map_of ?feature ''geometry'') = Some ?geo" by simp
  have h3: "distinct (map fst ?props)" by simp
  have h4: "distinct (map fst ?geo)" by simp
  from C9_parse_feature_flattens[OF h1 h2 h3 h4]
  obtain parsed where pp: "parse_feature (PyDict ?feature) = Inr parsed \<and>
    map_of parsed =
       (\<lambda>k. if k \<in> set avoid_keys then None else (map_of ?props ++ map_of ?geo) k) \<and>
    map fst parsed =
       filter (\<lambda>k. k \<notin> set avoid_keys) (map fst ?props) @
       filter (\<lambda>k. k \<notin> set avoid_keys \<and> k \<notin> set (map fst ?props)) (map fst ?geo)"
    ..
  note p = pp[THEN conjunct1] pp[THEN conjunct2, THEN conjunct1]
    pp[THEN conjunct2, THEN conjunct2]
  have ev: "parse_feature example_feature =
     Inr [(''mag'', PyFloat 5.1), (''place'', PyStr ''Tokyo''),
          (''coordinates'', PyList [PyInt 1, PyInt 2])]"
    by (simp add: example_feature_def parse_feature_def copy_section_def avoid_keys_def)
  have ex: "parse_feature example_feature = Inr parsed"
    using p(1) by (simp add: example_feature_def)
  have m: "map_of parsed ''id'' = None" "map_of parsed ''type'' = None"
    "map_of parsed ''mag'' = Some (PyFloat 5.1)"
    "map_of parsed ''place'' = Some (PyStr ''Tokyo'')"
    "map_of parsed ''coordinates'' = Some (PyList [PyInt 1, PyInt 2])"
    unfolding p(2) by (simp_all add: avoid_keys_def)
  have k: "map fst parsed = [''mag'', ''place'', ''coordinates'']"
    unfolding p(3) by (simp add: avoid_keys_def)
  show ?thesis
    by (intro conjI exI[of _ parsed]) (fact ev ex m k)+
qed

text \<open>
  The claim as the spec words it, for every feature record, fails on a record whose
  \<^verbatim>\<open>geometry\<close> is present and is not a dictionary: GeoJSON allows a feature with
  \<^verbatim>\<open>"geometry": null\<close>, and on it \<^verbatim>\<open>feature['geometry'].items()\<close> raises
  \<^verbatim>\<open>AttributeError\<close>, so that no mapping is returned, although the properties alone
  would have given one.
\<close>

theorem C9_null_geometry_counterexample:
  "section_items (map_of [(''properties'', PyDict [(''mag'', PyFloat 5)]), (''geometry'', PyNone)]
      ''geometry'') = None \<and>
   parse_feature (PyDict [(''properties'', PyDict [(''mag'', PyFloat 5)])])
     = Inr [(''mag'', PyFloat 5)] \<and>
   parse_feature (PyDict [(''properties'', PyDict [(''mag'', PyFloat 5)]), (''geometry'', PyNone)])
     = Inl (AttributeError ''object has no attribute items'')"
  by (simp add: parse_feature_def copy_section_def avoid_keys_def)

text \<open>
  The joiner keeps \<open>join_inv\<close>: each feature that \<open>parse_feature\<close> accepts adds its
  text, after a comma and a line break unless it is the first.
\<close>

lemma sep_join_snoc: "xs \<noteq> [] \<Longrightarrow> sep_join sep (xs @ [x]) = sep_join sep xs @ sep @ x"
  by (induction sep xs rule: sep_join.induct) auto

lemma error_files_append: "error_files (xs @ ys) = error_files xs @ error_files ys"
  by (induction xs rule: error_files.induct) auto

lemma projections_length: "projections fs = Some qs \<Longrightarrow> length qs = length fs"
  by (induction fs arbitrary: qs) (auto split: sum.splits)

lemma write_feature_inv:
  assumes "parse_feature f = Inr p" "join_inv dumps st ps"
  shows "\<exists>st'. write_feature dumps f st = (st', None) \<and> join_inv dumps st' (ps @ [p]) \<and>
               total_events st' = total_events st \<and> printed st' = printed st"
proof (cases "ps = []")
  case True
  then show ?thesis using assms by (simp add: write_feature_def join_inv_def)
next
  case False
  then show ?thesis using assms by (simp add: write_feature_def join_inv_def sep_join_snoc)
qed

lemma write_all_inv:
  "projections fs = Some qs \<Longrightarrow> join_inv dumps st ps \<Longrightarrow>
   \<exists>st'. write_all dumps fs st = (st', None) \<and> join_inv dumps st' (ps @ qs) \<and>
         total_events st' = total_events st \<and> printed st' = printed st"
proof (induction fs arbitrary: qs st ps)
  case Nil
  then show ?case by simp
next
  case (Cons f fs)
  from Cons.prems(1) obtain p qs' where p: "parse_feature f = Inr p"
    "projections fs = Some qs'" "qs = p # qs'"
    by (auto split: sum.splits)
  from write_feature_inv[OF p(1) Cons.prems(2)] obtain st1 where
    st1: "write_feature dumps f st = (st1, None)" "join_inv dumps st1 (ps @ [p])"
      "total_events st1 = total_events st" "printed st1 = printed st"
    by blast
  from Cons.IH[OF p(2) st1(2)] st1 p(3) show ?case by simp
qed

lemma process_data_inv:
  assumes "chunk_projections data = Some qs" "join_inv dumps st ps"
  shows "\<exists>st'. process_data dumps data st = (st', None) \<and> join_inv dumps st' (ps @ qs) \<and>
               total_events st' = total_events st + length qs \<and>
               error_files (printed st') = error_files (printed st)"
proof -
  from assms(1) obtain fs where fs: "features_of data = Some fs" "projections fs = Some qs"
    by (auto simp: chunk_projections_def split: option.splits)
  then obtain kvs where kvs: "data = PyDict kvs" by (cases data) auto
  show ?thesis
  proof (cases "map_of kvs ''features''")
    case None
    then have "''features'' \<notin> set (map fst kvs)" by (simp add: map_of_eq_None_iff)
    moreover have "qs = []" using fs None kvs by simp
    ultimately show ?thesis using assms(2) kvs by (simp add: process_data_def)
  next
    case (Some v)
    then have isin: "''features'' \<in> set (map fst kvs)"
      by (metis map_of_eq_None_iff option.distinct(1) set_map)
    show ?thesis
    proof (cases "truthy v")
      case False
      then have "fs = []" using fs(1) kvs Some by (cases v) (auto split: if_splits)
      then have "qs = []" using fs(2) by simp
      then show ?thesis using assms(2) kvs Some isin False by (simp add: process_data_def)
    next
      case True
      then have v: "v = PyList fs" using fs(1) kvs Some by (cases v) (auto split: if_splits)
      from write_all_inv[OF fs(2) assms(2)] obtain st1 where
        st1: "write_all dumps fs st = (st1, None)" "join_inv dumps st1 (ps @ qs)"
          "total_events st1 = total_events st" "printed st1 = printed st"
        by blast
      have inv: "join_inv dumps (st1\<lparr>total_events := total_events st1 + length fs,
                  printed := printed st1 @ [Added (length fs) (total_events st1 + length fs)]\<rparr>) (ps @ qs)"
        using st1(2) by (simp add: join_inv_def)
      show ?thesis
        using kvs Some isin True v st1 inv projections_length[OF fs(2)]
        by (simp add: process_data_def Let_def error_files_append)
    qed
  qed
qed

lemma join_loop_inv:
  "all_projections json_load files = Some qs \<Longrightarrow> join_inv dumps st ps \<Longrightarrow>
   \<exists>st'. join_loop json_load dumps n i files st = (st', None) \<and> join_inv dumps st' (ps @ qs) \<and>
         total_events st' = total_events st + length qs \<and>
         error_files (printed st') =
           error_files (printed st) @ map fst (filter (\<lambda>f. \<not> parsable json_load f) files)"
proof (induction files arbitrary: qs st ps i)
  case Nil
  then show ?case by simp
next
  case (Cons entry rest)
  obtain name content where fl: "entry = (name, content)" by (cases entry)
  from Cons.prems(1) obtain q1 q2 where q: "file_projections json_load content = Some q1"
    "all_projections json_load rest = Some q2" "qs = q1 @ q2"
    by (auto simp: fl split: option.splits)
  let ?st0 = "st\<lparr>printed := printed st @ [Processing (i + 1) n name]\<rparr>"
  have inv0: "join_inv dumps ?st0 ps" using Cons.prems(2) by (simp add: join_inv_def)
  show ?case
  proof (cases "json_load content")
    case (Inl e)
    let ?st1 = "?st0\<lparr>printed := printed ?st0 @ [ErrorProcessing name e]\<rparr>"
    have inv1: "join_inv dumps ?st1 ps" using inv0 by (simp add: join_inv_def)
    have c: "caught e" and "q1 = []"
      using q(1) Inl by (simp_all add: file_projections_def split: if_splits)
    with Cons.IH[OF q(2) inv1, of "i + 1"] q(3) Inl show ?thesis
      by (auto simp: fl Let_def error_files_append parsable_def try_file_def)
  next
    case (Inr data)
    then have "chunk_projections data = Some q1" using q(1) by (simp add: file_projections_def)
    from process_data_inv[OF this inv0] obtain st1 where
      st1: "process_data dumps data ?st0 = (st1, None)" "join_inv dumps st1 (ps @ q1)"
        "total_events st1 = total_events ?st0 + length q1"
        "error_files (printed st1) = error_files (printed ?st0)"
      by blast
    from Cons.IH[OF q(2) st1(2), of "i + 1"] st1 q(3) Inr show ?thesis
      by (auto simp: fl Let_def error_files_append parsable_def try_file_def)
  qed
qed

lemma all_projections_parsable:
  "all_projections json_load files = Some qs \<Longrightarrow>
   all_projections json_load (filter (parsable json_load) files) = Some qs"
proof (induction files arbitrary: qs)
  case Nil
  then show ?case by simp
next
  case (Cons entry rest)
  obtain name content where fl: "entry = (name, content)" by (cases entry)
  from Cons.prems obtain q1 q2 where q: "file_projections json_load content = Some q1"
    "all_projections json_load rest = Some q2" "qs = q1 @ q2"
    by (auto simp: fl split: option.splits)
  show ?case
  proof (cases "json_load content")
    case (Inl e)
    then have "q1 = []" using q(1) by (simp add: file_projections_def split: if_splits)
    then show ?thesis using Cons.IH[OF q(2)] q Inl by (simp add: fl parsable_def)
  next
    case (Inr data)
    then show ?thesis using Cons.IH[OF q(2)] q by (simp add: fl parsable_def)
  qed
qed

lemma join_data_files_joins:
  assumes "all_projections json_load files = Some qs"
  shows "\<exists>st. join_data_files json_load dumps files = (st, None) \<and>
              out_f st = json_array_text (map dumps qs) \<and>
              total_events st = length qs \<and>
              error_files (printed st) = map fst (filter (\<lambda>f. \<not> parsable json_load f) files)"
proof -
  let ?st = "\<lparr>out_f = ''['' @ newline, first_feature = True, total_events = 0,
              printed = [Found (length files)]\<rparr>"
  have inv: "join_inv dumps ?st []" by (simp add: join_inv_def)
  from join_loop_inv[OF assms inv, of "length files" 0] obtain st' where
    st': "join_loop json_load dumps (length files) 0 files ?st = (st', None)"
      "join_inv dumps st' qs" "total_events st' = length qs"
      "error_files (printed st') = map fst (filter (\<lambda>f. \<not> parsable json_load f) files)"
    by auto
  then show ?thesis
    by (simp add: join_data_files_def join_inv_def json_array_text_def error_files_append)
qed

text \<open>
  Claim C7, as the code has it. Let every chunk file either be rejected by
  \<^verbatim>\<open>json.load\<close> with \<^verbatim>\<open>JSONDecodeError\<close> (or the other error the \<^verbatim>\<open>except\<close>
  clause names) or hold a JSON object whose \<^verbatim>\<open>features\<close> entry is missing, false
  or a list of features that \<open>parse_feature\<close> accepts (\<open>all_projections\<close> is then
  \<open>Some qs\<close>, the projections of the features of the files that load, in order). Then
  \<open>join_data_files\<close> raises nothing and writes one JSON array, \<^verbatim>\<open>[\<close>, the texts of
  exactly those projections separated by a comma and a line break, and \<^verbatim>\<open>]\<close>; it
  counts them; it prints an error line for exactly the files \<^verbatim>\<open>json.load\<close> rejects
  and goes on; and it writes the same text as for the list without those files. A file
  that loads and has no features is passed over without an error line.
\<close>

theorem C7_join_writes_array_of_projections:
  assumes "all_projections json_load files = Some qs"
  shows "\<exists>st. join_data_files json_load dumps files = (st, None) \<and>
              out_f st = json_array_text (map dumps qs) \<and>
              total_events st = length qs \<and>
              error_files (printed st) = map fst (filter (\<lambda>f. \<not> parsable json_load f) files) \<and>
              out_f (fst (join_data_files json_load dumps (filter (parsable json_load) files)))
                = out_f st"
proof -
  from join_data_files_joins[OF assms, of dumps] obtain st where
    st: "join_data_files json_load dumps files = (st, None)"
      "out_f st = json_array_text (map dumps qs)" "total_events st = length qs"
      "error_files (printed st) = map fst (filter (\<lambda>f. \<not> parsable json_load f) files)"
    by blast
  from join_data_files_joins[OF all_projections_parsable[OF assms], of dumps] obtain st2 where
    "join_data_files json_load dumps (filter (parsable json_load) files) = (st2, None)"
    "out_f st2 = json_array_text (map dumps qs)"
    by blast
  with st show ?thesis by simp
qed

text \<open>
  Three chunk files, the second one not JSON: the array holds the features of the
  first and the third, and the error line names the second.
\<close>

theorem C7_join_witness:
  "all_projections example_load
      [(''a.json'', ''chunk A''), (''bad.json'', ''not json''), (''b.json'', ''chunk B'')]
    = Some [[(''mag'', PyFloat 5.1), (''place'', PyStr ''Tokyo''),
             (''coordinates'', PyList [PyInt 1, PyInt 2])],
            [(''mag'', PyFloat 6)]] \<and>
   (\<exists>st. join_data_files example_load example_dumps
           [(''a.json'', ''chunk A''), (''bad.json'', ''not json''), (''b.json'', ''chunk B'')]
         = (st, None) \<and>
        out_f st = ''['' @ newline @ ''{mag,place,coordinates},'' @ newline @ ''{mag}''
                     @ newline @ '']'' \<and>
        total_events st = 2 \<and>
        error_files (printed st) = [''bad.json''])"
proof -
  let ?files = "[(''a.json'', ''chunk A''), (''bad.json'', ''not json''), (''b.json'', ''chunk B'')]"
  let ?qs = "[[(''mag'', PyFloat 5.1), (''place'', PyStr ''Tokyo''),
               (''coordinates'', PyList [PyInt 1, PyInt 2])],
              [(''mag'', PyFloat 6)]]"
  have pfA: "parse_feature example_feature =
      Inr [(''mag'', PyFloat 5.1), (''place'', PyStr ''Tokyo''),
           (''coordinates'', PyList [PyInt 1, PyInt 2])]"
    by (simp add: example_feature_def parse_feature_def copy_section_def avoid_keys_def)
  have pfB: "parse_feature (PyDict [(''properties'', PyDict [(''mag'', PyFloat 6)])])
               = Inr [(''mag'', PyFloat 6)]"
    by (simp add: parse_feature_def copy_section_def avoid_keys_def)
  have h: "all_projections example_load ?files = Some ?qs"
    by (simp add: file_projections_def chunk_projections_def example_load_def pfA pfB)
  have arr: "json_array_text (map example_dumps ?qs) =
      ''['' @ newline @ ''{mag,place,coordinates},'' @ newline @ ''{mag}'' @ newline @ '']''"
    by (simp add: json_array_text_def example_dumps_def)
  have err: "map fst (filter (\<lambda>f. \<not> parsable example_load f) ?files) = [''bad.json'']"
    by (simp add: parsable_def example_load_def)
  from C7_join_writes_array_of_projections[OF h, of example_dumps]
  obtain st where st: "join_data_files example_load example_dumps ?files = (st, None) \<and>
      out_f st = json_array_text (map example_dumps ?qs) \<and>
      total_events st = length ?qs \<and>
      error_files (printed st) = map fst (filter (\<lambda>f. \<not> parsable example_load f) ?files) \<and>
      out_f (fst (join_data_files example_load example_dumps
                    (filter (parsable example_load) ?files))) = out_f st"
    ..
  have "join_data_files example_load example_dumps ?files = (st, None) \<and>
        out_f st = ''['' @ newline @ ''{mag,place,coordinates},'' @ newline @ ''{mag}''
                     @ newline @ '']'' \<and>
        total_events st = 2 \<and>
        error_files (printed st) = [''bad.json'']"
    using st arr err by simp
  then show ?thesis using h by (intro conjI exI[of _ st]) simp_all
qed

text \<open>
  The claim as the spec words it fails in two ways. A file that is JSON but has no
  \<^verbatim>\<open>features\<close> key is passed over by the \<^verbatim>\<open>if\<close> without any error line. And the
  \<^verbatim>\<open>except\<close> clause names \<^verbatim>\<open>JSONDecodeError\<close> and \<^verbatim>\<open>KeyError\<close> only: a file
  that is JSON but not an object (here \<^verbatim>\<open>null\<close>) raises \<^verbatim>\<open>TypeError\<close> at
  \<^verbatim>\<open>'features' in data\<close>, which ends the join with the array left open and the
  features of the later file unwritten.
\<close>

theorem C7_join_counterexample:
  "example_load ''{}'' = Inr (PyDict []) \<and>
   join_data_files example_load example_dumps [(''empty.json'', ''{}'')] =
     (\<lparr>out_f = ''['' @ newline @ newline @ '']'', first_feature = True, total_events = 0,
       printed = [Found 1, Processing 1 1 ''empty.json'', Joined 0]\<rparr>, None) \<and>
   example_load ''null'' = Inr PyNone \<and>
   join_data_files example_load example_dumps
      [(''a.json'', ''chunk A''), (''null.json'', ''null''), (''b.json'', ''chunk B'')] =
     (\<lparr>out_f = ''['' @ newline @ ''{mag,place,coordinates}'', first_feature = False,
       total_events = 1,
       printed = [Found 3, Processing 1 3 ''a.json'', Added 1 1, Processing 2 3 ''null.json'']\<rparr>,
      Some (TypeError ''argument is not iterable''))"
proof -
  have pfA: "parse_feature example_feature =
      Inr [(''mag'', PyFloat 5.1), (''place'', PyStr ''Tokyo''),
           (''coordinates'', PyList [PyInt 1, PyInt 2])]"
    by (simp add: example_feature_def parse_feature_def copy_section_def avoid_keys_def)
  show ?thesis
    by (simp add: join_data_files_def try_file_def example_load_def process_data_def
        write_feature_def pfA example_dumps_def)
qed

section \<open>Properties of the feature synthesizer\<close>

text \<open>
  A positive threshold on a truncated value is the same threshold on the value, so the
  alert tier is a step function of the magnitude alone: the tests on \<^verbatim>\<open>sig\<close> decide
  every tier before a test on the depth is reached.
\<close>

lemma py_trunc_ge: "0 < n \<Longrightarrow> (n \<le> py_trunc x) = (real_of_int n \<le> x)"
proof (cases "0 \<le> x")
  case True
  then show ?thesis by (simp add: py_trunc_def le_floor_iff)
next
  case False
  assume n: "0 < n"
  have "\<lceil>x\<rceil> \<le> 0" using False by (simp add: ceiling_le_iff)
  then have "\<not> n \<le> \<lceil>x\<rceil>" using n by linarith
  moreover have "\<not> real_of_int n \<le> x" using n False by linarith
  ultimately show ?thesis using False by (simp add: py_trunc_def)
qed

lemma alert_value:
  "map_of (generate_seismic_features t d m la lo) ''alert'' =
     Some (PyInt (if 7 \<le> m then 4 else if 6 \<le> m then 3 else if 3 \<le> m then 2
                  else if 1 \<le> m then 1 else 0))"
  by (simp add: generate_seismic_features_def Let_def py_trunc_ge)

lemma generate_seismic_features_fields_agree:
  "k \<noteq> ''depth'' \<Longrightarrow> k \<noteq> ''time'' \<Longrightarrow>
   map_of (generate_seismic_features t1 d1 m la lo) k =
   map_of (generate_seismic_features t2 d2 m la lo) k"
  by (simp add: generate_seismic_features_def Let_def py_trunc_ge)

text \<open>
  Claim C5. For every depth and all magnitudes \<open>m1 \<le> m2\<close>, the alert tiers that
  \<open>generate_seismic_features\<close> computes (with \<^verbatim>\<open>cdi\<close>, \<^verbatim>\<open>mmi\<close>, \<^verbatim>\<open>felt\<close> and
  \<^verbatim>\<open>sig\<close> derived from the magnitude by its rules) are integers \<open>a1 \<le> a2\<close>: a greater
  magnitude at the same depth never gives a lower tier.
\<close>

theorem C5_alert_monotone_in_magnitude:
  "m1 \<le> m2 \<Longrightarrow>
   \<exists>a1 a2. map_of (generate_seismic_features t1 d m1 la1 lo1) ''alert'' = Some (PyInt a1) \<and>
           map_of (generate_seismic_features t2 d m2 la2 lo2) ''alert'' = Some (PyInt a2) \<and>
           a1 \<le> a2"
  unfolding alert_value by auto

theorem C5_alert_monotone_witness:
  "(57 / 10 :: real) \<le> 62 / 10 \<and>
   map_of (generate_seismic_features 0 3 (57 / 10) 10 20) ''alert'' = Some (PyInt 2) \<and>
   map_of (generate_seismic_features 0 3 (62 / 10) 10 20) ''alert'' = Some (PyInt 3) \<and>
   (\<exists>a1 a2. map_of (generate_seismic_features 0 3 (57 / 10) 10 20) ''alert'' = Some (PyInt a1) \<and>
            map_of (generate_seismic_features 0 3 (62 / 10) 10 20) ''alert'' = Some (PyInt a2) \<and>
            a1 \<le> a2)"
proof -
  have h: "(57 / 10 :: real) \<le> 62 / 10" by simp
  have v1: "map_of (generate_seismic_features 0 3 (57 / 10) 10 20) ''alert'' = Some (PyInt 2)"
    by (simp add: alert_value)
  have v2: "map_of (generate_seismic_features 0 3 (62 / 10) 10 20) ''alert'' = Some (PyInt 3)"
    by (simp add: alert_value)
  note t = C5_alert_monotone_in_magnitude[OF h, of 0 3 10 20 0 10 20]
  show ?thesis
    by (intro conjI) (fact h v1 v2 t)+
qed

section \<open>Properties of the inference path\<close>

lemma bind_err_Inr: "bind_err r f = Inr y \<Longrightarrow> \<exists>x. r = Inr x \<and> f x = Inr y"
  by (cases r) (simp_all add: bind_err_def)








text \<open>
  A run of \<open>predict_seismic_impact\<close> that returns a triple has computed the magnitude,
  loaded the artifacts, and ended in one of the two branches after
  \<open>find_closest_in_cluster\<close>.
\<close>

lemma predict_Prediction:
  assumes "predict_seismic_impact env store m v la lo = Inr (Prediction result e c)"
  shows "\<exists>magn cd od nf.
           energy_to_magnitude (calculate_kinetic_energy m v) = Inr magn \<and>
           clustered_csv store = Some cd \<and> dataset_csv store = Some od \<and>
           e = calculate_kinetic_energy m v \<and>
           ((find_closest_in_cluster c nf cd od = Inr None \<and>
             result = Some (generate_seismic_features (now_ms env) (depth_sample env) magn la lo)) \<or>
            (\<exists>cn co dst. find_closest_in_cluster c nf cd od = Inr (Some (cn, co, dst)) \<and>
               result = Some (refine co
                  (generate_seismic_features (now_ms env) (depth_sample env) magn la lo))))"
proof -
  from assms obtain magn where
    magn: "energy_to_magnitude (calculate_kinetic_energy m v) = Inr magn"
    by (auto simp: predict_seismic_impact_def Let_def dest!: bind_err_Inr)
  let ?syn = "generate_seismic_features (now_ms env) (depth_sample env) magn la lo"
  from assms magn obtain kmeans scaler mi cd od where
    st: "kmeans_pkl store = Some kmeans" "scaler_pkl store = Some scaler"
      "model_info_pkl store = Some mi" "clustered_csv store = Some cd"
      "dataset_csv store = Some od"
    by (auto simp: predict_seismic_impact_def Let_def bind_err_def split: option.splits)
  from assms magn st obtain f2n vals ns full nf closest where
    steps: "kmeans full = Inr c"
      "normalized_dict f2n f2n ns = Inr nf"
      "find_closest_in_cluster c nf cd od = Inr closest"
      "(case closest of
          Some (closest_normalized, closest_original, distance) \<Rightarrow>
            Inr (Prediction (Some (refine closest_original ?syn)) (calculate_kinetic_energy m v) c)
        | None \<Rightarrow> Inr (Prediction (Some ?syn) (calculate_kinetic_energy m v) c))
       = (Inr (Prediction result e c) :: error + prediction)"
    by (auto simp: predict_seismic_impact_def Let_def bind_err_def
             split: sum.splits option.splits prod.splits)
  show ?thesis
  proof (cases closest)
    case None
    then show ?thesis using magn st steps by auto
  next
    case (Some t)
    obtain cn co dst where "t = (cn, co, dst)" by (cases t)
    then show ?thesis using Some magn st steps by auto
  qed
qed

text \<open>
  A run on the example artifacts: an impactor of 2 kg at 1000 m/s has an energy of
  \<open>10\<^sup>6\<close> J and a magnitude of 0.8. At time 0 the model answers cluster 0, whose
  second row is the nearest; at time 5000 it answers cluster 1, which has no rows.
\<close>

lemma log_million: "log 10 1000000 = 6"
proof -
  have "log 10 (10 ^ 6) = (6 :: real)" by (subst log_pow_cancel) simp_all
  then show ?thesis by simp
qed

lemma example_synthetic_features: "generate_seismic_features t 3 (4/5) 10 20 =
  [(''mag'', PyFloat (4/5)), (''latitude'', PyFloat 10), (''longitude'', PyFloat 20),
   (''time'', PyInt t), (''depth'', PyFloat 3), (''cdi'', PyFloat 2), (''mmi'', PyFloat 3),
   (''felt'', PyInt 0), (''sig'', PyInt 180), (''alert'', PyInt 0), (''tsunami'', PyInt 0),
   (''magType'', PyInt 24)]"
  by (simp add: generate_seismic_features_def Let_def py_trunc_def)

lemma example_energy: "calculate_kinetic_energy 2 1000 = 1000000"
  by (simp add: calculate_kinetic_energy_def)

lemma example_magnitude: "energy_to_magnitude 1000000 = Inr (4/5)"
  by (simp add: energy_to_magnitude_def log_million Let_def)

lemma example_prediction_refined:
  "predict_seismic_impact \<lparr>now_ms = 0, depth_sample = 3\<rparr> example_store 2 1000 10 20 =
   Inr (Prediction
     (Some [(''mag'', PyFloat (4/5)), (''latitude'', PyFloat 10), (''longitude'', PyFloat 20),
            (''time'', PyInt 222), (''depth'', PyFloat 2), (''cdi'', PyFloat 2),
            (''mmi'', PyFloat 2), (''felt'', PyInt 7), (''sig'', PyInt 180),
            (''alert'', PyInt 0), (''tsunami'', PyInt 1), (''magType'', PyInt 24)])
     1000000 0)"
  by (simp add: predict_seismic_impact_def example_energy example_magnitude example_synthetic_features Let_def
      example_store_def bind_err_def lookup_def lookup_float_def all_features_def
      find_closest_in_cluster_def cluster_rows_def series_def comparison_features_def
      euclidean_distance_def argmin_def keep_original_def enumerate_eq_zip
      power2_eq_square)

lemma example_prediction_unrefined:
  "predict_seismic_impact \<lparr>now_ms = 5000, depth_sample = 3\<rparr> example_store 2 1000 10 20 =
   Inr (Prediction (Some (generate_seismic_features 5000 3 (4/5) 10 20)) 1000000 1)"
  by (simp add: predict_seismic_impact_def example_energy example_magnitude example_synthetic_features Let_def
      example_store_def bind_err_def lookup_def lookup_float_def all_features_def
      find_closest_in_cluster_def cluster_rows_def series_def comparison_features_def
      euclidean_distance_def argmin_def keep_original_def enumerate_eq_zip
      power2_eq_square)







section \<open>Properties of the clock and the depth sample\<close>

text \<open>
  Claim C10. Two calls of \<open>generate_seismic_features\<close> with the same magnitude,
  latitude and longitude agree on every field but \<^verbatim>\<open>depth\<close> (the sample) and
  \<^verbatim>\<open>time\<close> (the clock), which hold exactly those two inputs. \<^verbatim>\<open>time\<close> is one of the
  twelve features passed to the clustering model, and the cluster is not a function of
  the request parameters even at a fixed depth: there are artifacts and two clock
  readings for which the same request at the same depth is assigned different clusters.
\<close>

theorem C10_time_enters_the_cluster_assignment:
  "(k \<noteq> ''depth'' \<and> k \<noteq> ''time'' \<longrightarrow>
      map_of (generate_seismic_features t1 d1 m la lo) k =
      map_of (generate_seismic_features t2 d2 m la lo) k) \<and>
   map_of (generate_seismic_features t1 d1 m la lo) ''time'' = Some (PyInt t1) \<and>
   map_of (generate_seismic_features t1 d1 m la lo) ''depth'' = Some (PyFloat d1) \<and>
   ''time'' \<in> set all_features \<and> length all_features = 12 \<and>
   (\<exists>store mass_kg velocity_ms la' lo' d t t' r e c r' e' c'.
      predict_seismic_impact \<lparr>now_ms = t, depth_sample = d\<rparr> store mass_kg velocity_ms la' lo'
        = Inr (Prediction r e c) \<and>
      predict_seismic_impact \<lparr>now_ms = t', depth_sample = d\<rparr> store mass_kg velocity_ms la' lo'
        = Inr (Prediction r' e' c') \<and>
      c \<noteq> c')"
proof (intro conjI impI)
  assume "k \<noteq> ''depth'' \<and> k \<noteq> ''time''"
  then show "map_of (generate_seismic_features t1 d1 m la lo) k =
      map_of (generate_seismic_features t2 d2 m la lo) k"
    by (simp add: generate_seismic_features_fields_agree)
next
  show "map_of (generate_seismic_features t1 d1 m la lo) ''time'' = Some (PyInt t1)"
    by (simp add: generate_seismic_features_def Let_def)
next
  show "map_of (generate_seismic_features t1 d1 m la lo) ''depth'' = Some (PyFloat d1)"
    by (simp add: generate_seismic_features_def Let_def)
next
  show "''time'' \<in> set all_features" by (simp add: all_features_def)
next
  show "length all_features = 12" by (simp add: all_features_def)
next
  have "(0::int) \<noteq> 1" by simp
  with example_prediction_refined example_prediction_unrefined show "\<exists>store mass_kg velocity_ms la' lo' d t t' r e c r' e' c'.
      predict_seismic_impact \<lparr>now_ms = t, depth_sample = d\<rparr> store mass_kg velocity_ms la' lo'
        = Inr (Prediction r e c) \<and>
      predict_seismic_impact \<lparr>now_ms = t', depth_sample = d\<rparr> store mass_kg velocity_ms la' lo'
        = Inr (Prediction r' e' c') \<and>
      c \<noteq> c'"
    by (intro exI conjI)
qed

theorem C10_time_witness:
  "''alert'' \<noteq> ''depth'' \<and> ''alert'' \<noteq> ''time'' \<and>
   map_of (generate_seismic_features 0 1 (62 / 10) 10 20) ''alert'' =
   map_of (generate_seismic_features 5000 4 (62 / 10) 10 20) ''alert'' \<and>
   map_of (generate_seismic_features 0 1 (62 / 10) 10 20) ''time'' = Some (PyInt 0) \<and>
   map_of (generate_seismic_features 5000 4 (62 / 10) 10 20) ''time'' = Some (PyInt 5000)"
proof -
  have h: "''alert'' \<noteq> ''depth'' \<and> ''alert'' \<noteq> ''time''" by simp
  note t = C10_time_enters_the_cluster_assignment[of "''alert''" 0 1 "62 / 10" 10 20 5000 4]
  note u = C10_time_enters_the_cluster_assignment[of "''alert''" 5000 4 "62 / 10" 10 20 0 1]
  from t h have a: "map_of (generate_seismic_features 0 1 (62 / 10) 10 20) ''alert'' =
   map_of (generate_seismic_features 5000 4 (62 / 10) 10 20) ''alert''"
    by blast
  from t have b: "map_of (generate_seismic_features 0 1 (62 / 10) 10 20) ''time'' = Some (PyInt 0)"
    by blast
  from u have c: "map_of (generate_seismic_features 5000 4 (62 / 10) 10 20) ''time'' = Some (PyInt 5000)"
    by blast
  show ?thesis using h a b c by blast
qed

section \<open>Properties of the endpoint\<close>

lemma energy_positive: "0 < mass_kg \<Longrightarrow> 0 < velocity_ms \<Longrightarrow> 0 < calculate_kinetic_energy mass_kg velocity_ms"
  by (simp add: calculate_kinetic_energy_def)

lemma predict_seismic_impact_load_failure:
  assumes "0 < mass_kg" "0 < velocity_ms"
    and "kmeans_pkl store = None \<or> scaler_pkl store = None \<or> model_info_pkl store = None \<or>
         clustered_csv store = None \<or> dataset_csv store = None"
  shows "predict_seismic_impact env store mass_kg velocity_ms la lo = Inr NoPrediction"
proof -
  have "\<not> calculate_kinetic_energy mass_kg velocity_ms \<le> 0"
    using energy_positive[OF assms(1,2)] by simp
  then show ?thesis using assms(3)
    by (auto simp: predict_seismic_impact_def energy_to_magnitude_def bind_err_def Let_def
             split: option.splits)
qed

text \<open>
  The first component of a returned triple is never \<^verbatim>\<open>None\<close>, so the test
  \<^verbatim>\<open>if result is None\<close> of the endpoint never succeeds.
\<close>

lemma predict_seismic_impact_result_not_None:
  "predict_seismic_impact env store m v la lo \<noteq> Inr (Prediction None e c)"
proof
  assume "predict_seismic_impact env store m v la lo = Inr (Prediction None e c)"
  from predict_Prediction[OF this] show False by auto
qed

text \<open>
  Claim C4, as the code behaves. For a request that passes the validation, when an
  artifact does not load \<open>predict_seismic_impact\<close> returns a bare \<^verbatim>\<open>None\<close> and the
  endpoint answers with status 500, which differs from the 400 of a validation error.
  But the detail is that of the general handler, about the failed unpacking of
  \<^verbatim>\<open>None\<close> into three names; the branch with the detail "Prediction model failed to
  load or execute" stands after the unpacking and is not reached.
\<close>

theorem C4_load_failure_response:
  assumes "0 < mass data" "0 < velocity data"
    and "- 90 \<le> latitude data" "latitude data \<le> 90"
    and "- 180 \<le> longitude data" "longitude data \<le> 180"
    and "kmeans_pkl store = None \<or> scaler_pkl store = None \<or> model_info_pkl store = None \<or>
         clustered_csv store = None \<or> dataset_csv store = None"
  shows "predict_seismic_impact env store (mass data) (velocity data) (latitude data)
           (longitude data) = Inr NoPrediction \<and>
         predict parse_float env store data =
           Inl (HTTPException 500
                 ''Internal server error: cannot unpack non-iterable NoneType object'') \<and>
         predict parse_float env store data \<noteq>
           Inl (HTTPException 500 ''Prediction model failed to load or execute'')"
proof -
  have np: "predict_seismic_impact env store (mass data) (velocity data) (latitude data)
           (longitude data) = Inr NoPrediction"
    by (rule predict_seismic_impact_load_failure[OF assms(1,2,7)])
  have "predict_body parse_float env store data =
          Inl (TypeError ''cannot unpack non-iterable NoneType object'')"
    using assms(1-6) by (simp add: predict_body_def np bind_err_def)
  then have "predict parse_float env store data =
           Inl (HTTPException 500
                 ''Internal server error: cannot unpack non-iterable NoneType object'')"
    by (simp add: predict_def)
  then show ?thesis using np by simp
qed

theorem C4_load_failure_witness:
  "predict (\<lambda>s. None) \<lparr>now_ms = 0, depth_sample = 3\<rparr> empty_store
     \<lparr>mass = 14000000, velocity = 18000, latitude = 356762 / 10000, longitude = 1396503 / 10000\<rparr>
   = Inl (HTTPException 500 ''Internal server error: cannot unpack non-iterable NoneType object'') \<and>
   predict (\<lambda>s. None) \<lparr>now_ms = 0, depth_sample = 3\<rparr> empty_store
     \<lparr>mass = 14000000, velocity = 18000, latitude = 356762 / 10000, longitude = 1396503 / 10000\<rparr>
   \<noteq> Inl (HTTPException 500 ''Prediction model failed to load or execute'') \<and>
   predict (\<lambda>s. None) \<lparr>now_ms = 0, depth_sample = 3\<rparr> empty_store
     \<lparr>mass = 0, velocity = 18000, latitude = 356762 / 10000, longitude = 1396503 / 10000\<rparr>
   = Inl (HTTPException 400 ''Mass must be positive'')"
proof -
  let ?data = "\<lparr>mass = 14000000, velocity = 18000, latitude = 356762 / 10000,
                 longitude = 1396503 / 10000\<rparr>"
  have h: "0 < mass ?data" "0 < velocity ?data" "- 90 \<le> latitude ?data" "latitude ?data \<le> 90"
    "- 180 \<le> longitude ?data" "longitude ?data \<le> 180"
    by simp_all
  have m: "kmeans_pkl empty_store = None \<or> scaler_pkl empty_store = None \<or>
           model_info_pkl empty_store = None \<or> clustered_csv empty_store = None \<or>
           dataset_csv empty_store = None"
    by (simp add: empty_store_def)
  note t = C4_load_failure_response[OF h m, of "\<lparr>now_ms = 0, depth_sample = 3\<rparr>" "\<lambda>s. None"]
  have v: "predict (\<lambda>s. None) \<lparr>now_ms = 0, depth_sample = 3\<rparr> empty_store
     \<lparr>mass = 0, velocity = 18000, latitude = 356762 / 10000, longitude = 1396503 / 10000\<rparr>
   = Inl (HTTPException 400 ''Mass must be positive'')"
    by (simp add: predict_def predict_body_def)
  show ?thesis using t v by blast
qed

end
